theory Spec2Isabelle
  imports Complex_Main "HOL-Library.AList"
begin

section \<open>Data model\<close>

text \<open>
  The three Lambda functions of the repository (email-receiver, orchestrator, email-sender)
  share one DynamoDB-backed memory and talk to each other through asynchronous Lambda
  invocations. The model threads one \<open>world\<close> record through every handler; the external
  services (text generation, Lambda invoke, SES) are fields of an \<open>env\<close> record, so that
  every theorem holds for whatever they answer.

  What is left out: \<open>console.log\<close>; the passing of time within one invocation (every
  \<open>new Date()\<close> of an invocation reads the same \<open>now\<close>); failures of the store itself,
  whose operations always complete here.

  Record fields live in one name space in Isabelle, so fields that several TypeScript
  types share (\<open>id\<close>, \<open>from\<close>, \<open>to\<close>, \<open>subject\<close>, \<open>timestamp\<close>, \<open>assignee\<close>, ...) carry a
  short prefix of their type here.
\<close>

text \<open>\<open>uuidv4()\<close>: the n-th call returns n, so distinct calls return distinct ids.\<close>

type_synonym uuid = nat

text \<open>\<open>new Date().toISOString()\<close> and the timestamps of SES, as a number of seconds.\<close>

type_synonym timestamp = nat

text \<open>
  A JavaScript number as far as \<open>x || d\<close> can tell one from another: the decimal literals
  of the source are read as exact reals, and \<open>NaN\<close> is kept since it is falsy.
\<close>

datatype jsnum = Num real | NaN

datatype status = Pending | Assigned | Completed | Cancelled

datatype direction = Incoming | Outgoing

datatype message_id = SourceId string | GeneratedId uuid

datatype error =
    TypeError string
  | UnknownEventType string
  | UnknownEmailType string
  | CollaboratorError string

record message =
  m_id :: message_id
  m_from :: string
  m_to :: "string option"
  m_subject :: string
  m_body :: string
  m_timestamp :: timestamp
  m_type :: direction

record task =
  task_id :: uuid
  description :: string
  deadline :: "string option"
  skillsRequired :: "string list"
  priority :: string
  status :: status
  requestedBy :: string
  createdAt :: timestamp
  updatedAt :: timestamp
  assignedTo :: "string option"

record decision =
  d_taskId :: uuid
  d_assignedTo :: string
  d_rationale :: string
  d_timestamp :: timestamp
  d_confidence :: jsnum

record member =
  name :: string
  email :: string
  skills :: "string list"
  currentWorkload :: nat
  availability :: string

record rec_entry =
  r_assignee :: "string option"
  r_confidence :: "jsnum option"
  r_rationale :: string

record recommendation =
  assignment :: "rec_entry option"
  alternatives :: "rec_entry list"

record assignment_decision =
  assignee :: string
  rationale :: string
  emailSubject :: string
  emailBody :: string

record memory_context =
  self_description :: string
  recentMessages :: "message list"
  activeTasks :: "task list"
  recentDecisions :: "decision list"

record memory_stats =
  hotMessages :: nat
  openTasks :: nat
  warmDecisions :: nat

record email_data =
  e_messageId :: string
  e_from :: string
  e_to :: "string list"
  e_subject :: string
  e_timestamp :: timestamp

record task_request =
  tr_description :: string
  tr_deadline :: "string option"
  tr_skillsRequired :: "string list"
  tr_priority :: "string option"

text \<open>
  The payload of an orchestrator invocation is JSON: any of \<open>data\<close>, \<open>data.email\<close>,
  \<open>data.taskRequest\<close> and \<open>data.message\<close> may be missing at run time.
\<close>

record event_data =
  ed_email :: "email_data option"
  ed_taskRequest :: "task_request option"
  ed_message :: "message option"

record orchestrator_event =
  ev_type :: string
  ev_data :: "event_data option"
  ev_source :: string

text \<open>One record of an SES event, with the fields the test fixture fills in.\<close>

record ses_record =
  mail_messageId :: string
  mail_source :: string
  mail_destination :: "string list"
  header_subject :: string
  receipt_timestamp :: timestamp

record email_payload =
  p_to :: "string list"
  p_subject :: string
  p_body :: string

record email_sender_event =
  es_type :: string
  emailData :: email_payload
  taskId :: "uuid option"

datatype ses_call =
    SesAssignment string "string option" "string list" string string "uuid option"
  | SesNotification "string list" string string

datatype body =
    ErrorBody string
  | MessageBody string
  | AssignedBody string task assignment_decision
  | HealthBody string timestamp memory_stats
  | SentBody string "uuid option" "string list"

record response =
  statusCode :: nat
  body :: body

text \<open>
  What a handler did to the outside, in the order it did it: every awaited call to the
  store (reads as well as writes), to the roster, the optimizer, the text generator, the
  Lambda service and SES.
\<close>

datatype effect =
    BuildMemoryContext
  | GetMemoryStats
  | GetTeamData
  | StoreActiveTask task
  | StoreDecision decision
  | StoreMessage message
  | ConsultOptimizer
  | TextGeneration
  | InvokeEmailSender email_sender_event
  | InvokeOrchestrator orchestrator_event
  | SesSend ses_call

record world =
  tasks :: "(uuid \<times> task) list"
  decisions :: "decision list"
  messages :: "message list"
  email_sender_queue :: "email_sender_event list"
  orchestrator_queue :: "orchestrator_event list"
  ses_outbox :: "ses_call list"
  next_uuid :: nat
  optimizer_calls :: nat
  now :: timestamp
  trace :: "effect list"

record env =
  generateAssignment ::
    "string \<Rightarrow> member list \<Rightarrow> recommendation option \<Rightarrow> memory_context
       \<Rightarrow> error + assignment_decision"
  lambda_send_email_sender :: "email_sender_event \<Rightarrow> bool"
  lambda_send_orchestrator :: "orchestrator_event \<Rightarrow> bool"
  ses_send :: "ses_call \<Rightarrow> bool"
  parseEmailEvent :: "ses_record \<Rightarrow> error + email_data"
  extractTaskRequest :: "string \<Rightarrow> string \<Rightarrow> task_request"
  EMAIL_DOMAIN :: string

definition uuidv4 :: "world \<Rightarrow> uuid \<times> world" where
  "uuidv4 w = (next_uuid w, w\<lparr>next_uuid := Suc (next_uuid w)\<rparr>)"

definition emit :: "effect \<Rightarrow> world \<Rightarrow> world" where
  "emit e w = w\<lparr>trace := trace w @ [e]\<rparr>"

section \<open>The memory service\<close>

text \<open>
  \<open>MemoryService\<close> (\<open>@/lib/memory\<close>) is imported by all three handlers, which only call
  it; its operations are modelled after the Context Store of the specification. The window
  of 20 messages and the horizon of 7 days are the defaults of the specification (and of the
  README).
\<close>

definition hot_window_default :: nat where
  "hot_window_default = 20"

definition warm_horizon_default :: nat where
  "warm_horizon_default = 7 * 24 * 60 * 60"

text \<open>
  Modelled from the spec: \<open>MemoryService.storeMessage\<close> is missing. "Message append is
  append-only, no conflict possible": the message goes to the end of the store.
\<close>

definition storeMessage :: "message \<Rightarrow> world \<Rightarrow> world" where
  "storeMessage m w = emit (StoreMessage m) (w\<lparr>messages := messages w @ [m]\<rparr>)"

text \<open>
  Modelled from the spec: the Hot-tier read of \<open>MemoryService\<close> is missing. "A fixed-size
  sliding window of the N most recently stored Messages", "evicted strictly by recency (store
  order), never by size of content or type".
\<close>

definition getRecentMessages :: "nat \<Rightarrow> world \<Rightarrow> message list" where
  "getRecentMessages n w = drop (length (messages w) - n) (messages w)"

text \<open>
  Modelled from the spec: \<open>MemoryService.storeActiveTask\<close> is missing. "Task keyed by Task
  id": a put under the Task's id, replacing the row of that id if there is one. The Task
  object the orchestrator builds has no field for a dedup key.
\<close>

definition storeActiveTask :: "task \<Rightarrow> world \<Rightarrow> world" where
  "storeActiveTask t w =
     emit (StoreActiveTask t) (w\<lparr>tasks := AList.update (task_id t) t (tasks w)\<rparr>)"

text \<open>
  Modelled from the spec: \<open>MemoryService.storeDecision\<close> is missing. "Append-only log keyed
  by Task id". The Decision object the orchestrator builds has no attempt number, so the
  duplicate check of the specification has nothing to compare and the entry is appended.
\<close>

definition storeDecision :: "decision \<Rightarrow> world \<Rightarrow> world" where
  "storeDecision d w = emit (StoreDecision d) (w\<lparr>decisions := decisions w @ [d]\<rparr>)"

text \<open>
  Modelled from the spec: the reads behind \<open>buildMemoryContext\<close> are missing. Hot tier:
  "all Tasks not in a terminal state"; Warm tier: "Decisions within a trailing time horizon
  (default 7 days)".
\<close>

definition terminal :: "status \<Rightarrow> bool" where
  "terminal s = (s = Completed \<or> s = Cancelled)"

definition getActiveTasks :: "world \<Rightarrow> task list" where
  "getActiveTasks w = filter (\<lambda>t. \<not> terminal (status t)) (map snd (tasks w))"

definition getRecentDecisions :: "nat \<Rightarrow> world \<Rightarrow> decision list" where
  "getRecentDecisions horizon w =
     filter (\<lambda>d. now w \<le> d_timestamp d + horizon) (decisions w)"

text \<open>
  Modelled from the spec: \<open>MemoryService.buildMemoryContext\<close> is missing. It "assembles
  self-description + Hot tier + Warm tier into one MemoryContext snapshot" and is a read.
\<close>

definition buildMemoryContext :: "world \<Rightarrow> memory_context" where
  "buildMemoryContext w =
     \<lparr>self_description = ''Louie De Palma'',
      recentMessages = getRecentMessages hot_window_default w,
      activeTasks = getActiveTasks w,
      recentDecisions = getRecentDecisions warm_horizon_default w\<rparr>"

text \<open>
  Modelled from the spec: \<open>MemoryService.getMemoryStats\<close> is missing. The health query
  "returns store-derived counters".
\<close>

definition getMemoryStats :: "world \<Rightarrow> memory_stats" where
  "getMemoryStats w =
     \<lparr>hotMessages = length (getRecentMessages hot_window_default w),
      openTasks = length (getActiveTasks w),
      warmDecisions = length (getRecentDecisions warm_horizon_default w)\<rparr>"

section \<open>The orchestrator Lambda\<close>

definition getTeamDataFromSheets :: "member list" where
  "getTeamDataFromSheets =
     [\<lparr>name = ''Alex'', email = ''alex@team.com'',
       skills = [''backend'', ''api'', ''docs''],
       currentWorkload = 30, availability = ''available''\<rparr>,
      \<lparr>name = ''Sarah'', email = ''sarah@team.com'',
       skills = [''mobile'', ''frontend'', ''api''],
       currentWorkload = 45, availability = ''available''\<rparr>]"

text \<open>
  \<open>teamData[0].name\<close> throws a TypeError on an empty roster; \<open>teamData[1]?.name\<close> is
  \<open>undefined\<close> when there is no second row. The result is typed \<open>any\<close>: an answer is
  \<open>Some\<close> object, or \<open>None\<close> for \<open>undefined\<close> or \<open>null\<close>; this function always
  returns an object.
\<close>

definition getSchedulerRecommendation ::
  "task \<Rightarrow> member list \<Rightarrow> error + recommendation option" where
  "getSchedulerRecommendation t teamData =
     (case teamData of
        [] \<Rightarrow> Inl (TypeError ''teamData[0] is undefined'')
      | m0 # rest \<Rightarrow>
          Inr (Some \<lparr>assignment =
                 Some \<lparr>r_assignee = Some (name m0),
                       r_confidence = Some (Num (85 / 100)),
                       r_rationale = ''Best skill match and lowest workload''\<rparr>,
               alternatives =
                 [\<lparr>r_assignee = (case rest of [] \<Rightarrow> None | m1 # _ \<Rightarrow> Some (name m1)),
                   r_confidence = Some (Num (65 / 100)),
                   r_rationale = ''Has some relevant skills but higher workload''\<rparr>]\<rparr>))"

text \<open>\<open>teamData.find(m => m.name === name)\<close>, then \<open>member?.email\<close>.\<close>

definition findTeamMemberEmail :: "string \<Rightarrow> member list \<Rightarrow> string option" where
  "findTeamMemberEmail n teamData = map_option email (find (\<lambda>m. name m = n) teamData)"

text \<open>\<open>schedulerRecommendation.assignment?.confidence || 0.8\<close>: zero and NaN are falsy.\<close>

definition decisionConfidence :: "recommendation \<Rightarrow> jsnum" where
  "decisionConfidence r =
     (case assignment r of
        None \<Rightarrow> Num (8 / 10)
      | Some a \<Rightarrow>
          (case r_confidence a of
             None \<Rightarrow> Num (8 / 10)
           | Some NaN \<Rightarrow> Num (8 / 10)
           | Some (Num c) \<Rightarrow> if c = 0 then Num (8 / 10) else Num c))"

text \<open>
  The orchestrator's \<open>sendAssignmentEmail\<close>: an asynchronous invocation of the email-sender
  Lambda; a failed \<open>lambdaClient.send\<close> is logged and thrown again.
\<close>

definition sendAssignmentEmail ::
  "env \<Rightarrow> string \<Rightarrow> string \<Rightarrow> string list \<Rightarrow> string \<Rightarrow> string \<Rightarrow> uuid \<Rightarrow> world
     \<Rightarrow> (error + unit) \<times> world" where
  "sendAssignmentEmail env who assigneeEmail ccEmails subj bdy tid w =
     (let emailEvent =
            \<lparr>es_type = ''assignment_email'',
             emailData = \<lparr>p_to = assigneeEmail # ccEmails, p_subject = subj, p_body = bdy\<rparr>,
             taskId = Some tid\<rparr>;
          w' = emit (InvokeEmailSender emailEvent) w
      in if lambda_send_email_sender env emailEvent
         then (Inr (), w'\<lparr>email_sender_queue := email_sender_queue w' @ [emailEvent]\<rparr>)
         else (Inl (CollaboratorError ''Failed to queue assignment email''), w'))"

text \<open>\<open>taskRequest.priority || 'medium'\<close>: a missing or empty priority is falsy.\<close>

definition newTask :: "uuid \<Rightarrow> task_request \<Rightarrow> email_data \<Rightarrow> timestamp \<Rightarrow> task" where
  "newTask tid tr em t =
     \<lparr>task_id = tid,
      description = tr_description tr,
      deadline = tr_deadline tr,
      skillsRequired = tr_skillsRequired tr,
      priority = (case tr_priority tr of
                    None \<Rightarrow> ''medium''
                  | Some p \<Rightarrow> if p = [] then ''medium'' else p),
      status = Pending,
      requestedBy = e_from em,
      createdAt = t,
      updatedAt = t,
      assignedTo = None\<rparr>"

text \<open>
  The optimizer is a parameter of the handler's body: the source's
  \<open>getSchedulerRecommendation\<close> is a stand-in ("This would call the custom task-scheduler MCP
  server") that cannot fail on the fixed roster, and what the body does with a failing,
  missing or incomplete answer is only visible when the answer can vary. The optimizer gets
  the number of calls made to it so far, so that it may answer differently from one call to
  the next. It may throw (\<open>Inl\<close>), answer \<open>undefined\<close> (\<open>Inr None\<close>) or answer an object
  (\<open>Inr (Some r)\<close>) whose \<open>assignment\<close> and \<open>confidence\<close> may be absent.
\<close>

definition consultOptimizer ::
  "(nat \<Rightarrow> task \<Rightarrow> member list \<Rightarrow> error + recommendation option) \<Rightarrow> task \<Rightarrow> member list
     \<Rightarrow> world \<Rightarrow> (error + recommendation option) \<times> world" where
  "consultOptimizer opt t teamData w =
     (opt (optimizer_calls w) t teamData,
      emit ConsultOptimizer (w\<lparr>optimizer_calls := Suc (optimizer_calls w)\<rparr>))"

text \<open>
  The body of \<open>handleEmailReceived\<close>, statement by statement. \<open>taskRequest.description\<close> is
  read (for the log line) before the memory context is built; in the object literal of the
  Task \<open>uuidv4()\<close> is evaluated before \<open>email.from\<close>; and the argument of \<open>storeDecision\<close>
  reads \<open>schedulerRecommendation.assignment\<close>, which throws a TypeError on an answer that is
  \<open>undefined\<close>, after the Task has been stored as assigned and before any Decision is
  stored.
\<close>

definition handleEmailReceived_with ::
  "(nat \<Rightarrow> task \<Rightarrow> member list \<Rightarrow> error + recommendation option) \<Rightarrow> env
     \<Rightarrow> orchestrator_event \<Rightarrow> world \<Rightarrow> (error + response) \<times> world" where
  "handleEmailReceived_with opt env event w0 =
     (case ev_data event of
        None \<Rightarrow> (Inl (TypeError ''Cannot destructure event.data''), w0)
      | Some d \<Rightarrow>
     (case ed_taskRequest d of
        None \<Rightarrow> (Inl (TypeError ''Cannot read properties of undefined (description)''), w0)
      | Some taskRequest \<Rightarrow>
     (let memoryContext = buildMemoryContext w0;
          wr = emit BuildMemoryContext w0;
          (tid, w1) = uuidv4 wr
      in
     (case ed_email d of
        None \<Rightarrow> (Inl (TypeError ''Cannot read properties of undefined (from)''), w1)
      | Some em \<Rightarrow>
     (let t = newTask tid taskRequest em (now w1);
          w2 = storeActiveTask t w1;
          teamData = getTeamDataFromSheets;
          wt = emit GetTeamData w2;
          (answer, w3) = consultOptimizer opt t teamData wt
      in
     (case answer of
        Inl err \<Rightarrow> (Inl err, w3)
      | Inr schedulerRecommendation \<Rightarrow>
     (let w4 = emit TextGeneration w3
      in
     (case generateAssignment env (description t) teamData schedulerRecommendation
             memoryContext of
        Inl err \<Rightarrow> (Inl err, w4)
      | Inr assignmentDecision \<Rightarrow>
     (let t' = t\<lparr>assignedTo := Some (assignee assignmentDecision),
                 status := Assigned,
                 updatedAt := now w4\<rparr>;
          w5 = storeActiveTask t' w4
      in
     (case schedulerRecommendation of
        None \<Rightarrow> (Inl (TypeError ''Cannot read properties of undefined (assignment)''), w5)
      | Some r \<Rightarrow>
     (let w6 = storeDecision
                 \<lparr>d_taskId = task_id t',
                  d_assignedTo = assignee assignmentDecision,
                  d_rationale = rationale assignmentDecision,
                  d_timestamp = now w5,
                  d_confidence = decisionConfidence r\<rparr> w5;
          ok = \<lparr>statusCode = 200,
                body = AssignedBody ''Task assigned successfully'' t' assignmentDecision\<rparr>
      in
     (case findTeamMemberEmail (assignee assignmentDecision) teamData of
        None \<Rightarrow> (Inr ok, w6)
      | Some assigneeEmail \<Rightarrow>
          if assigneeEmail = [] then (Inr ok, w6)
          else
            (case sendAssignmentEmail env (assignee assignmentDecision) assigneeEmail
                    [e_from em] (emailSubject assignmentDecision)
                    (emailBody assignmentDecision) (task_id t') w6 of
               (Inl err, w7) \<Rightarrow> (Inl err, w7)
             | (Inr u, w7) \<Rightarrow> (Inr ok, w7))))))))))))))"

definition handleManualTask :: "orchestrator_event \<Rightarrow> world \<Rightarrow> (error + response) \<times> world" where
  "handleManualTask event w =
     (Inr \<lparr>statusCode = 200,
           body = MessageBody ''Manual task handling not implemented yet''\<rparr>, w)"

definition handleHealthCheck :: "world \<Rightarrow> (error + response) \<times> world" where
  "handleHealthCheck w =
     (Inr \<lparr>statusCode = 200, body = HealthBody ''healthy'' (now w) (getMemoryStats w)\<rparr>,
      emit GetMemoryStats w)"

text \<open>
  The exported \<open>handler\<close> of the orchestrator: the \<open>switch\<close> on \<open>event.type\<close> inside a
  \<open>try\<close> whose \<open>catch\<close> turns every error into the same 500 response.
\<close>

definition orchestrator_handler_with ::
  "(nat \<Rightarrow> task \<Rightarrow> member list \<Rightarrow> error + recommendation option) \<Rightarrow> env
     \<Rightarrow> orchestrator_event \<Rightarrow> world \<Rightarrow> response \<times> world" where
  "orchestrator_handler_with opt env event w =
     (case (if ev_type event = ''email_received'' then handleEmailReceived_with opt env event w
            else if ev_type event = ''manual_task'' then handleManualTask event w
            else if ev_type event = ''health_check'' then handleHealthCheck w
            else (Inl (UnknownEventType (ev_type event)), w)) of
        (Inr resp, w') \<Rightarrow> (resp, w')
      | (Inl err, w') \<Rightarrow>
          (\<lparr>statusCode = 500, body = ErrorBody ''Internal server error''\<rparr>, w'))"

text \<open>The handlers as the source has them: the optimizer is \<open>getSchedulerRecommendation\<close>.\<close>

definition handleEmailReceived ::
  "env \<Rightarrow> orchestrator_event \<Rightarrow> world \<Rightarrow> (error + response) \<times> world" where
  "handleEmailReceived = handleEmailReceived_with (\<lambda>n. getSchedulerRecommendation)"

definition orchestrator_handler :: "env \<Rightarrow> orchestrator_event \<Rightarrow> world \<Rightarrow> response \<times> world" where
  "orchestrator_handler = orchestrator_handler_with (\<lambda>n. getSchedulerRecommendation)"

section \<open>The email-sender Lambda\<close>

text \<open>
  \<open>sesService.sendAssignmentEmail\<close> and \<open>sendNotificationEmail\<close> are calls to the
  transport, answered by \<open>ses_send\<close>; a send that went through is kept in \<open>ses_outbox\<close>.
  \<open>emailData.to[0]\<close> is \<open>undefined\<close> on an empty list and \<open>slice(1)\<close> is empty there.
\<close>

definition first_recipient :: "string list \<Rightarrow> string option" where
  "first_recipient xs = (case xs of [] \<Rightarrow> None | x # _ \<Rightarrow> Some x)"

definition sentMessage :: "env \<Rightarrow> uuid \<Rightarrow> email_payload \<Rightarrow> timestamp \<Rightarrow> message" where
  "sentMessage env mid p t =
     \<lparr>m_id = GeneratedId mid,
      m_from = ''louie@'' @ EMAIL_DOMAIN env,
      m_to = first_recipient (p_to p),
      m_subject = p_subject p,
      m_body = p_body p,
      m_timestamp = t,
      m_type = Outgoing\<rparr>"

definition sender_sendAssignmentEmail ::
  "env \<Rightarrow> email_sender_event \<Rightarrow> world \<Rightarrow> (error + response) \<times> world" where
  "sender_sendAssignmentEmail env event w =
     (let p = emailData event;
          assigneeEmail = first_recipient (p_to p);
          ccEmails = drop 1 (p_to p);
          call = SesAssignment ''Unknown'' assigneeEmail ccEmails (p_subject p) (p_body p)
                   (taskId event);
          w1 = emit (SesSend call) w
      in if ses_send env call
         then
           (let w2 = w1\<lparr>ses_outbox := ses_outbox w1 @ [call]\<rparr>;
                (mid, w3) = uuidv4 w2;
                w4 = storeMessage (sentMessage env mid p (now w3)) w3
            in (Inr \<lparr>statusCode = 200,
                      body = SentBody ''Assignment email sent successfully'' (taskId event)
                               (p_to p)\<rparr>, w4))
         else (Inl (CollaboratorError ''Failed to send assignment email''), w1))"

definition sendNotificationEmail ::
  "env \<Rightarrow> email_sender_event \<Rightarrow> world \<Rightarrow> (error + response) \<times> world" where
  "sendNotificationEmail env event w =
     (let p = emailData event;
          call = SesNotification (p_to p) (p_subject p) (p_body p);
          w1 = emit (SesSend call) w
      in if ses_send env call
         then
           (let w2 = w1\<lparr>ses_outbox := ses_outbox w1 @ [call]\<rparr>;
                (mid, w3) = uuidv4 w2;
                w4 = storeMessage (sentMessage env mid p (now w3)) w3
            in (Inr \<lparr>statusCode = 200,
                      body = SentBody ''Notification email sent successfully'' None (p_to p)\<rparr>,
                w4))
         else (Inl (CollaboratorError ''Failed to send notification email''), w1))"

definition email_sender_handler :: "env \<Rightarrow> email_sender_event \<Rightarrow> world \<Rightarrow> response \<times> world" where
  "email_sender_handler env event w =
     (case (if es_type event = ''assignment_email'' then sender_sendAssignmentEmail env event w
            else if es_type event = ''notification_email'' then sendNotificationEmail env event w
            else (Inl (UnknownEmailType (es_type event)), w)) of
        (Inr resp, w') \<Rightarrow> (resp, w')
      | (Inl err, w') \<Rightarrow> (\<lparr>statusCode = 500, body = ErrorBody ''Failed to send email''\<rparr>, w'))"

section \<open>The email-receiver Lambda\<close>

definition invokeOrchestrator :: "env \<Rightarrow> orchestrator_event \<Rightarrow> world \<Rightarrow> (error + unit) \<times> world" where
  "invokeOrchestrator env event w =
     (let w' = emit (InvokeOrchestrator event) w
      in if lambda_send_orchestrator env event
         then (Inr (), w'\<lparr>orchestrator_queue := orchestrator_queue w' @ [event]\<rparr>)
         else (Inl (CollaboratorError ''Failed to invoke orchestrator''), w'))"

definition processEmailRecord :: "env \<Rightarrow> ses_record \<Rightarrow> world \<Rightarrow> (error + unit) \<times> world" where
  "processEmailRecord env record w =
     (case parseEmailEvent env record of
        Inl err \<Rightarrow> (Inl err, w)
      | Inr ed \<Rightarrow>
          (let msg = \<lparr>m_id = SourceId (e_messageId ed),
                       m_from = e_from ed,
                       m_to = first_recipient (e_to ed),
                       m_subject = e_subject ed,
                       m_body = [],
                       m_timestamp = e_timestamp ed,
                       m_type = Incoming\<rparr>;
               w1 = storeMessage msg w;
               taskRequest = extractTaskRequest env (e_subject ed) [];
               orchestratorEvent =
                 \<lparr>ev_type = ''email_received'',
                  ev_data = Some \<lparr>ed_email = Some ed,
                                   ed_taskRequest = Some taskRequest,
                                   ed_message = Some msg\<rparr>,
                  ev_source = ''email-receiver''\<rparr>
           in invokeOrchestrator env orchestratorEvent w1))"

text \<open>The \<open>for\<close> loop over \<open>event.Records\<close>: the first record that throws ends it.\<close>

fun processRecords :: "env \<Rightarrow> ses_record list \<Rightarrow> world \<Rightarrow> (error + unit) \<times> world" where
  "processRecords env [] w = (Inr (), w)"
| "processRecords env (r # rs) w =
     (case processEmailRecord env r w of
        (Inl err, w') \<Rightarrow> (Inl err, w')
      | (Inr u, w') \<Rightarrow> processRecords env rs w')"

definition email_receiver_handler :: "env \<Rightarrow> ses_record list \<Rightarrow> world \<Rightarrow> response \<times> world" where
  "email_receiver_handler env records w =
     (case processRecords env records w of
        (Inr u, w') \<Rightarrow>
          (\<lparr>statusCode = 200, body = MessageBody ''Emails processed successfully''\<rparr>, w')
      | (Inl err, w') \<Rightarrow>
          (\<lparr>statusCode = 500, body = ErrorBody ''Failed to process emails''\<rparr>, w'))"

section \<open>The system as a whole\<close>

text \<open>
  One step of the system is one invocation of one of the three Lambda functions; the
  responses go back to the caller and the world is what the next invocation finds.
\<close>

datatype invocation =
    Receive "ses_record list"
  | Orchestrate orchestrator_event
  | Send email_sender_event

fun step :: "env \<Rightarrow> world \<Rightarrow> invocation \<Rightarrow> world" where
  "step env w (Receive records) = snd (email_receiver_handler env records w)"
| "step env w (Orchestrate event) = snd (orchestrator_handler env event w)"
| "step env w (Send event) = snd (email_sender_handler env event w)"

definition run :: "env \<Rightarrow> invocation list \<Rightarrow> world \<Rightarrow> world" where
  "run env invs w = foldl (step env) w invs"

text \<open>Storing a sequence of messages, one \<open>storeMessage\<close> after the other.\<close>

definition storeMessages :: "message list \<Rightarrow> world \<Rightarrow> world" where
  "storeMessages ms w = foldl (\<lambda>v m. storeMessage m v) w ms"

text \<open>The email-sender Lambda invoked \<open>n\<close> times with the same event.\<close>

fun dispatch_times :: "nat \<Rightarrow> env \<Rightarrow> email_sender_event \<Rightarrow> world \<Rightarrow> world" where
  "dispatch_times 0 env event w = w"
| "dispatch_times (Suc n) env event w =
     dispatch_times n env event (snd (email_sender_handler env event w))"

section \<open>Notions the properties are stated with\<close>

text \<open>
  The values one run of \<open>handleEmailReceived\<close> works with, as functions of its inputs: the
  Task after \<open>task.status = 'assigned'\<close>, the object given to \<open>storeDecision\<close>, the event
  given to the email-sender Lambda and the success response.
\<close>

definition assignedTask :: "task \<Rightarrow> assignment_decision \<Rightarrow> timestamp \<Rightarrow> task" where
  "assignedTask t ad ts =
     t\<lparr>assignedTo := Some (assignee ad), status := Assigned, updatedAt := ts\<rparr>"

definition recordedDecision ::
  "uuid \<Rightarrow> recommendation \<Rightarrow> assignment_decision \<Rightarrow> timestamp \<Rightarrow> decision" where
  "recordedDecision tid r ad ts =
     \<lparr>d_taskId = tid, d_assignedTo = assignee ad, d_rationale = rationale ad,
      d_timestamp = ts, d_confidence = decisionConfidence r\<rparr>"

definition assignmentEvent ::
  "uuid \<Rightarrow> string \<Rightarrow> email_data \<Rightarrow> assignment_decision \<Rightarrow> email_sender_event" where
  "assignmentEvent tid mail em ad =
     \<lparr>es_type = ''assignment_email'',
      emailData = \<lparr>p_to = [mail, e_from em], p_subject = emailSubject ad,
                   p_body = emailBody ad\<rparr>,
      taskId = Some tid\<rparr>"

definition okResponse :: "task \<Rightarrow> assignment_decision \<Rightarrow> response" where
  "okResponse t ad =
     \<lparr>statusCode = 200, body = AssignedBody ''Task assigned successfully'' t ad\<rparr>"

definition errorResponse :: response where
  "errorResponse = \<lparr>statusCode = 500, body = ErrorBody ''Internal server error''\<rparr>"

text \<open>The world once the memory context is read and the id of the Task is drawn.\<close>

definition afterContext :: "world \<Rightarrow> world" where
  "afterContext w =
     w\<lparr>next_uuid := Suc (next_uuid w), trace := trace w @ [BuildMemoryContext]\<rparr>"

text \<open>The world once the pending Task is stored and the optimizer has been asked.\<close>

definition afterPending :: "task \<Rightarrow> world \<Rightarrow> world" where
  "afterPending t w =
     w\<lparr>next_uuid := Suc (next_uuid w),
       tasks := AList.update (next_uuid w) t (tasks w),
       optimizer_calls := Suc (optimizer_calls w),
       trace := trace w @ [BuildMemoryContext, StoreActiveTask t, GetTeamData,
                           ConsultOptimizer]\<rparr>"

text \<open>The world once the Task is stored as assigned.\<close>

definition afterAssigned :: "task \<Rightarrow> task \<Rightarrow> world \<Rightarrow> world" where
  "afterAssigned t t' w =
     w\<lparr>next_uuid := Suc (next_uuid w),
       tasks := AList.update (next_uuid w) t' (tasks w),
       optimizer_calls := Suc (optimizer_calls w),
       trace := trace w @ [BuildMemoryContext, StoreActiveTask t, GetTeamData,
                           ConsultOptimizer, TextGeneration, StoreActiveTask t']\<rparr>"

text \<open>The world once the assigned Task and the Decision are stored.\<close>

definition afterRecorded :: "task \<Rightarrow> task \<Rightarrow> decision \<Rightarrow> world \<Rightarrow> world" where
  "afterRecorded t t' d w =
     w\<lparr>next_uuid := Suc (next_uuid w),
       tasks := AList.update (next_uuid w) t' (tasks w),
       decisions := decisions w @ [d],
       optimizer_calls := Suc (optimizer_calls w),
       trace := trace w @ [BuildMemoryContext, StoreActiveTask t, GetTeamData,
                           ConsultOptimizer, TextGeneration, StoreActiveTask t',
                           StoreDecision d]\<rparr>"

text \<open>
  Every Task id of the store came out of \<open>uuidv4\<close> before: the ids still to come are new.
\<close>

definition fresh_ids :: "world \<Rightarrow> bool" where
  "fresh_ids w = list_all (\<lambda>p. fst p < next_uuid w) (tasks w)"

text \<open>The Task of an id, and the statuses of all Tasks by id, as the store has them.\<close>

definition getTask :: "world \<Rightarrow> uuid \<Rightarrow> task option" where
  "getTask w i = map_of (tasks w) i"

definition statuses :: "world \<Rightarrow> (uuid \<times> status) list" where
  "statuses w = map (\<lambda>p. (fst p, status (snd p))) (tasks w)"

text \<open>
  The lifecycle \<open>pending \<rightarrow> assigned \<rightarrow> (completed | cancelled)\<close>: \<open>forward a b\<close> holds when
  \<open>b\<close> is \<open>a\<close> or comes later in it. The two terminal states are not later than each other.
\<close>

fun rank :: "status \<Rightarrow> nat" where
  "rank Pending = 0"
| "rank Assigned = 1"
| "rank Completed = 2"
| "rank Cancelled = 2"

definition forward :: "status \<Rightarrow> status \<Rightarrow> bool" where
  "forward a b = (a = b \<or> rank a < rank b)"

text \<open>One arrow of the lifecycle, and a write that keeps the status or follows one arrow.\<close>

fun lifecycle :: "status \<Rightarrow> status \<Rightarrow> bool" where
  "lifecycle Pending Assigned = True"
| "lifecycle Assigned Completed = True"
| "lifecycle Assigned Cancelled = True"
| "lifecycle a b = False"

definition advance :: "status \<Rightarrow> status \<Rightarrow> bool" where
  "advance a b = (a = b \<or> lifecycle a b)"

text \<open>
  Replaying the Task writes of a trace over the statuses of the store: \<open>writes_forward\<close>
  accepts a write when it creates a Task as pending, or keeps the status of an existing Task
  or moves it along one arrow of the lifecycle; \<open>replay\<close> is the statuses after the writes.
\<close>

fun writes_forward :: "(uuid \<times> status) list \<Rightarrow> effect list \<Rightarrow> bool" where
  "writes_forward st [] = True"
| "writes_forward st (StoreActiveTask t # es) =
     ((case map_of st (task_id t) of
         None \<Rightarrow> status t = Pending
       | Some s \<Rightarrow> advance s (status t))
      \<and> writes_forward (AList.update (task_id t) (status t) st) es)"
| "writes_forward st (e # es) = writes_forward st es"

fun replay :: "(uuid \<times> status) list \<Rightarrow> effect list \<Rightarrow> (uuid \<times> status) list" where
  "replay st [] = st"
| "replay st (StoreActiveTask t # es) = replay (AList.update (task_id t) (status t) st) es"
| "replay st (e # es) = replay st es"

text \<open>
  The order of the state-changing steps of one run, as an automaton over its effects: phase 0
  before the status change, 1 once the Task is stored as assigned, 2 once the Decision is
  appended, 3 once the email-sender Lambda is invoked. A step out of turn is rejected.
\<close>

fun in_order :: "nat \<Rightarrow> effect list \<Rightarrow> bool" where
  "in_order p [] = True"
| "in_order p (StoreActiveTask t # es) =
     (if status t = Assigned then p = 0 \<and> in_order 1 es else p = 0 \<and> in_order 0 es)"
| "in_order p (StoreDecision d # es) = (p = 1 \<and> in_order 2 es)"
| "in_order p (InvokeEmailSender e # es) = (p = 2 \<and> in_order 3 es)"
| "in_order p (e # es) = in_order p es"

text \<open>A roster entry satisfies a Task when it holds every required capability.\<close>

definition satisfies :: "member \<Rightarrow> string list \<Rightarrow> bool" where
  "satisfies m required = list_all (\<lambda>c. c \<in> set (skills m)) required"

definition no_candidate :: "string list \<Rightarrow> member list \<Rightarrow> bool" where
  "no_candidate required roster = list_all (\<lambda>m. \<not> satisfies m required) roster"

text \<open>
  The payload the email-receiver builds has \<open>email\<close>, \<open>taskRequest\<close> and \<open>message\<close>; a
  payload that lacks \<open>data\<close> or one of the three is malformed.
\<close>

definition malformed_payload :: "orchestrator_event \<Rightarrow> bool" where
  "malformed_payload event =
     (case ev_data event of
        None \<Rightarrow> True
      | Some d \<Rightarrow> ed_email d = None \<or> ed_taskRequest d = None \<or> ed_message d = None)"

definition recognized :: "string \<Rightarrow> bool" where
  "recognized ty = (ty = ''email_received'' \<or> ty = ''manual_task'' \<or> ty = ''health_check'')"

text \<open>
  The events \<open>handleEmailReceived\<close> gives up on before it stores anything: the payload lacks
  \<open>data\<close>, \<open>taskRequest\<close> or \<open>email\<close>. Of these, the ones that lack only \<open>email\<close> get
  as far as the read of the memory context.
\<close>

definition lacks_field :: "orchestrator_event \<Rightarrow> bool" where
  "lacks_field event =
     (case ev_data event of
        None \<Rightarrow> True
      | Some d \<Rightarrow> ed_taskRequest d = None \<or> ed_email d = None)"

definition lacks_only_email :: "orchestrator_event \<Rightarrow> bool" where
  "lacks_only_email event =
     (case ev_data event of
        None \<Rightarrow> False
      | Some d \<Rightarrow> ed_taskRequest d \<noteq> None \<and> ed_email d = None)"

text \<open>The SES call the email-sender makes for an assignment event.\<close>

definition assignmentCall :: "email_sender_event \<Rightarrow> ses_call" where
  "assignmentCall event =
     SesAssignment ''Unknown'' (first_recipient (p_to (emailData event)))
       (drop 1 (p_to (emailData event))) (p_subject (emailData event))
       (p_body (emailData event)) (taskId event)"

text \<open>\<open>schedulerRecommendation.assignment?.confidence\<close>, before the \<open>||\<close>.\<close>

definition recommendedConfidence :: "recommendation \<Rightarrow> jsnum option" where
  "recommendedConfidence r = (case assignment r of None \<Rightarrow> None | Some a \<Rightarrow> r_confidence a)"

text \<open>The effects that invoke the email-sender Lambda.\<close>

definition is_dispatch :: "effect \<Rightarrow> bool" where
  "is_dispatch e = (case e of InvokeEmailSender ev \<Rightarrow> True | _ \<Rightarrow> False)"

text \<open>The effects that write a Task.\<close>

definition is_task_write :: "effect \<Rightarrow> bool" where
  "is_task_write e = (case e of StoreActiveTask t \<Rightarrow> True | _ \<Rightarrow> False)"

text \<open>
  The effects a handler added to the trace, and a handler run that wrote no Task.
\<close>

definition new_effects :: "world \<Rightarrow> world \<Rightarrow> effect list" where
  "new_effects w w' = drop (length (trace w)) (trace w')"

definition quiet :: "world \<Rightarrow> world \<Rightarrow> bool" where
  "quiet w w' =
     (tasks w' = tasks w \<and> next_uuid w \<le> next_uuid w'
      \<and> trace w' = trace w @ new_effects w w'
      \<and> filter is_task_write (new_effects w w') = [])"

text \<open>What a step is shown to do to the Tasks: \<open>new\<close> are its effects.\<close>

definition step_ok :: "world \<Rightarrow> world \<Rightarrow> effect list \<Rightarrow> bool" where
  "step_ok w w' new =
     (trace w' = trace w @ new \<and> writes_forward (statuses w) new
      \<and> replay (statuses w) new = statuses w' \<and> fresh_ids w')"

section \<open>Sample inputs\<close>

definition empty_world :: world where
  "empty_world =
     \<lparr>tasks = [], decisions = [], messages = [], email_sender_queue = [],
      orchestrator_queue = [], ses_outbox = [], next_uuid = 0, optimizer_calls = 0,
      now = 100, trace = []\<rparr>"

definition pick_alex :: assignment_decision where
  "pick_alex =
     \<lparr>assignee = ''Alex'', rationale = ''You wrote the endpoints'',
      emailSubject = ''Task Assignment - API Documentation'',
      emailBody = ''You are on the API docs. Due Friday.''\<rparr>"

definition pick_bob :: assignment_decision where
  "pick_bob =
     \<lparr>assignee = ''Bob'', rationale = ''Bob knows the flow'',
      emailSubject = ''Task Assignment - API Documentation'',
      emailBody = ''You are on the API docs. Due Friday.''\<rparr>"

definition subject_request :: "string \<Rightarrow> string \<Rightarrow> task_request" where
  "subject_request subj bdy =
     \<lparr>tr_description = subj, tr_deadline = None, tr_skillsRequired = [],
      tr_priority = None\<rparr>"

definition parse_record :: "ses_record \<Rightarrow> error + email_data" where
  "parse_record r =
     Inr \<lparr>e_messageId = mail_messageId r, e_from = mail_source r,
          e_to = mail_destination r, e_subject = header_subject r,
          e_timestamp = receipt_timestamp r\<rparr>"

text \<open>Services that all answer; the text generator names Alex, or Bob, who is on no roster.\<close>

definition env_alex :: env where
  "env_alex =
     \<lparr>generateAssignment = (\<lambda>d team r m. Inr pick_alex),
      lambda_send_email_sender = (\<lambda>e. True),
      lambda_send_orchestrator = (\<lambda>e. True),
      ses_send = (\<lambda>c. True),
      parseEmailEvent = parse_record,
      extractTaskRequest = subject_request,
      EMAIL_DOMAIN = ''depalma.work''\<rparr>"

definition env_bob :: env where
  "env_bob = env_alex\<lparr>generateAssignment := (\<lambda>d team r m. Inr pick_bob)\<rparr>"

definition sample_email :: email_data where
  "sample_email =
     \<lparr>e_messageId = ''msg-1'', e_from = ''boss@team.com'',
      e_to = [''louie@depalma.work''], e_subject = ''Need someone for quantum work'',
      e_timestamp = 90\<rparr>"

definition sample_request :: task_request where
  "sample_request =
     \<lparr>tr_description = ''Calibrate the quantum rig'', tr_deadline = None,
      tr_skillsRequired = [''quantum''], tr_priority = None\<rparr>"

definition sample_message :: message where
  "sample_message =
     \<lparr>m_id = SourceId ''msg-1'', m_from = ''boss@team.com'',
      m_to = Some ''louie@depalma.work'', m_subject = ''Need someone for quantum work'',
      m_body = [], m_timestamp = 90, m_type = Incoming\<rparr>"

definition sample_event :: orchestrator_event where
  "sample_event =
     \<lparr>ev_type = ''email_received'',
      ev_data = Some \<lparr>ed_email = Some sample_email, ed_taskRequest = Some sample_request,
                      ed_message = Some sample_message\<rparr>,
      ev_source = ''email-receiver''\<rparr>"

text \<open>
  The same event without its \<open>message\<close>, without its \<open>email\<close>, without its
  \<open>taskRequest\<close> and without \<open>data\<close>, and an event of a type no handler knows.
\<close>

definition event_without_message :: orchestrator_event where
  "event_without_message =
     \<lparr>ev_type = ''email_received'',
      ev_data = Some \<lparr>ed_email = Some sample_email, ed_taskRequest = Some sample_request,
                      ed_message = None\<rparr>,
      ev_source = ''email-receiver''\<rparr>"

definition event_without_email :: orchestrator_event where
  "event_without_email =
     \<lparr>ev_type = ''email_received'',
      ev_data = Some \<lparr>ed_email = None, ed_taskRequest = Some sample_request,
                      ed_message = Some sample_message\<rparr>,
      ev_source = ''email-receiver''\<rparr>"

definition event_without_request :: orchestrator_event where
  "event_without_request =
     \<lparr>ev_type = ''email_received'',
      ev_data = Some \<lparr>ed_email = Some sample_email, ed_taskRequest = None,
                      ed_message = Some sample_message\<rparr>,
      ev_source = ''email-receiver''\<rparr>"

definition event_without_data :: orchestrator_event where
  "event_without_data =
     \<lparr>ev_type = ''email_received'', ev_data = None, ev_source = ''email-receiver''\<rparr>"

definition unknown_event :: orchestrator_event where
  "unknown_event = \<lparr>ev_type = ''sms_received'', ev_data = None, ev_source = ''test''\<rparr>"

text \<open>
  An optimizer whose answer has no primary recommendation, and one whose answer is
  \<open>undefined\<close>.
\<close>

definition bare_optimizer ::
  "nat \<Rightarrow> task \<Rightarrow> member list \<Rightarrow> error + recommendation option" where
  "bare_optimizer n t team = Inr (Some \<lparr>assignment = None, alternatives = []\<rparr>)"

definition silent_optimizer ::
  "nat \<Rightarrow> task \<Rightarrow> member list \<Rightarrow> error + recommendation option" where
  "silent_optimizer n t team = Inr None"

definition sample_send :: email_sender_event where
  "sample_send = assignmentEvent 0 ''alex@team.com'' sample_email pick_alex"

definition numbered_message :: "nat \<Rightarrow> timestamp \<Rightarrow> message" where
  "numbered_message i ts =
     \<lparr>m_id = GeneratedId i, m_from = ''boss@team.com'', m_to = None, m_subject = [],
      m_body = [], m_timestamp = ts, m_type = Incoming\<rparr>"

text \<open>A store that already holds a completed Task.\<close>

definition done_task :: task where
  "done_task =
     \<lparr>task_id = 0, description = ''Write the API docs'', deadline = None,
      skillsRequired = [''docs''], priority = ''medium'', status = Completed,
      requestedBy = ''boss@team.com'', createdAt = 10, updatedAt = 50,
      assignedTo = Some ''Alex''\<rparr>"

definition busy_world :: world where
  "busy_world = empty_world\<lparr>tasks := [(0, done_task)], next_uuid := 1\<rparr>"

text \<open>An SES record as the test fixture \<open>createMockSESEvent\<close> builds it.\<close>

definition sample_record :: ses_record where
  "sample_record =
     \<lparr>mail_messageId = ''test-message-id'', mail_source = ''boss@team.com'',
      mail_destination = [''louie@test.depalma.work''],
      header_subject = ''Need someone for quantum work'', receipt_timestamp = 90\<rparr>"

section \<open>What one run of the orchestrator does\<close>

text \<open>
  \<open>handleEmailReceived\<close> is straight-line code with nine ways out. Each lemma below gives
  the result and the world of one of them; \<open>her_outcomes\<close> says there are no others.
\<close>

lemmas her_defs = handleEmailReceived_with_def Let_def uuidv4_def storeActiveTask_def storeDecision_def
  emit_def consultOptimizer_def sendAssignmentEmail_def

lemma newTask_sel [simp]:
  "task_id (newTask i tr em ts) = i" "status (newTask i tr em ts) = Pending"
  "description (newTask i tr em ts) = tr_description tr"
  "requestedBy (newTask i tr em ts) = e_from em"
  "skillsRequired (newTask i tr em ts) = tr_skillsRequired tr"
  by (simp_all add: newTask_def)

lemma assignedTask_sel [simp]:
  "task_id (assignedTask t ad ts) = task_id t" "status (assignedTask t ad ts) = Assigned"
  "assignedTo (assignedTask t ad ts) = Some (assignee ad)"
  "description (assignedTask t ad ts) = description t"
  by (simp_all add: assignedTask_def)

lemma her_no_data:
  "ev_data event = None \<Longrightarrow>
   handleEmailReceived_with opt env event w =
     (Inl (TypeError ''Cannot destructure event.data''), w)"
  by (simp add: handleEmailReceived_with_def)

lemma her_no_request:
  "ev_data event = Some d \<Longrightarrow> ed_taskRequest d = None \<Longrightarrow>
   handleEmailReceived_with opt env event w =
     (Inl (TypeError ''Cannot read properties of undefined (description)''), w)"
  by (simp add: handleEmailReceived_with_def)

lemma her_no_email:
  "ev_data event = Some d \<Longrightarrow> ed_taskRequest d = Some tr \<Longrightarrow> ed_email d = None \<Longrightarrow>
   handleEmailReceived_with opt env event w =
     (Inl (TypeError ''Cannot read properties of undefined (from)''),
      afterContext w)"
  by (simp add: her_defs afterContext_def)

lemma her_optimizer_failed:
  "ev_data event = Some d \<Longrightarrow> ed_taskRequest d = Some tr \<Longrightarrow> ed_email d = Some em \<Longrightarrow>
   opt (optimizer_calls w) (newTask (next_uuid w) tr em (now w)) getTeamDataFromSheets = Inl err \<Longrightarrow>
   handleEmailReceived_with opt env event w =
     (Inl err, afterPending (newTask (next_uuid w) tr em (now w)) w)"
  by (simp add: her_defs afterPending_def)

lemma her_generation_failed:
  "ev_data event = Some d \<Longrightarrow> ed_taskRequest d = Some tr \<Longrightarrow> ed_email d = Some em \<Longrightarrow>
   opt (optimizer_calls w) (newTask (next_uuid w) tr em (now w)) getTeamDataFromSheets = Inr a \<Longrightarrow>
   generateAssignment env (tr_description tr) getTeamDataFromSheets a (buildMemoryContext w) = Inl err \<Longrightarrow>
   handleEmailReceived_with opt env event w =
     (Inl err, emit TextGeneration (afterPending (newTask (next_uuid w) tr em (now w)) w))"
  by (simp add: her_defs afterPending_def)

lemma her_answer_missing:
  "ev_data event = Some d \<Longrightarrow> ed_taskRequest d = Some tr \<Longrightarrow> ed_email d = Some em \<Longrightarrow>
   opt (optimizer_calls w) (newTask (next_uuid w) tr em (now w)) getTeamDataFromSheets = Inr None \<Longrightarrow>
   generateAssignment env (tr_description tr) getTeamDataFromSheets None (buildMemoryContext w) = Inr ad \<Longrightarrow>
   handleEmailReceived_with opt env event w =
     (Inl (TypeError ''Cannot read properties of undefined (assignment)''),
      afterAssigned (newTask (next_uuid w) tr em (now w))
        (assignedTask (newTask (next_uuid w) tr em (now w)) ad (now w)) w)"
  by (simp add: her_defs afterAssigned_def assignedTask_def)

lemma her_not_notified:
  "ev_data event = Some d \<Longrightarrow> ed_taskRequest d = Some tr \<Longrightarrow> ed_email d = Some em \<Longrightarrow>
   opt (optimizer_calls w) (newTask (next_uuid w) tr em (now w)) getTeamDataFromSheets = Inr (Some r) \<Longrightarrow>
   generateAssignment env (tr_description tr) getTeamDataFromSheets (Some r) (buildMemoryContext w) = Inr ad \<Longrightarrow>
   findTeamMemberEmail (assignee ad) getTeamDataFromSheets = None
     \<or> findTeamMemberEmail (assignee ad) getTeamDataFromSheets = Some [] \<Longrightarrow>
   handleEmailReceived_with opt env event w =
     (Inr (okResponse (assignedTask (newTask (next_uuid w) tr em (now w)) ad (now w)) ad),
      afterRecorded (newTask (next_uuid w) tr em (now w))
        (assignedTask (newTask (next_uuid w) tr em (now w)) ad (now w))
        (recordedDecision (next_uuid w) r ad (now w)) w)"
  by (auto simp add: her_defs afterRecorded_def okResponse_def assignedTask_def recordedDecision_def)

lemma her_queue_failed:
  "ev_data event = Some d \<Longrightarrow> ed_taskRequest d = Some tr \<Longrightarrow> ed_email d = Some em \<Longrightarrow>
   opt (optimizer_calls w) (newTask (next_uuid w) tr em (now w)) getTeamDataFromSheets = Inr (Some r) \<Longrightarrow>
   generateAssignment env (tr_description tr) getTeamDataFromSheets (Some r) (buildMemoryContext w) = Inr ad \<Longrightarrow>
   findTeamMemberEmail (assignee ad) getTeamDataFromSheets = Some mail \<Longrightarrow> mail \<noteq> [] \<Longrightarrow>
   \<not> lambda_send_email_sender env (assignmentEvent (next_uuid w) mail em ad) \<Longrightarrow>
   handleEmailReceived_with opt env event w =
     (Inl (CollaboratorError ''Failed to queue assignment email''),
      emit (InvokeEmailSender (assignmentEvent (next_uuid w) mail em ad))
        (afterRecorded (newTask (next_uuid w) tr em (now w))
           (assignedTask (newTask (next_uuid w) tr em (now w)) ad (now w))
           (recordedDecision (next_uuid w) r ad (now w)) w))"
  by (simp add: her_defs afterRecorded_def okResponse_def assignedTask_def recordedDecision_def
      assignmentEvent_def)

lemma her_notified:
  "ev_data event = Some d \<Longrightarrow> ed_taskRequest d = Some tr \<Longrightarrow> ed_email d = Some em \<Longrightarrow>
   opt (optimizer_calls w) (newTask (next_uuid w) tr em (now w)) getTeamDataFromSheets = Inr (Some r) \<Longrightarrow>
   generateAssignment env (tr_description tr) getTeamDataFromSheets (Some r) (buildMemoryContext w) = Inr ad \<Longrightarrow>
   findTeamMemberEmail (assignee ad) getTeamDataFromSheets = Some mail \<Longrightarrow> mail \<noteq> [] \<Longrightarrow>
   lambda_send_email_sender env (assignmentEvent (next_uuid w) mail em ad) \<Longrightarrow>
   handleEmailReceived_with opt env event w =
     (Inr (okResponse (assignedTask (newTask (next_uuid w) tr em (now w)) ad (now w)) ad),
      (emit (InvokeEmailSender (assignmentEvent (next_uuid w) mail em ad))
        (afterRecorded (newTask (next_uuid w) tr em (now w))
           (assignedTask (newTask (next_uuid w) tr em (now w)) ad (now w))
           (recordedDecision (next_uuid w) r ad (now w)) w))
      \<lparr>email_sender_queue :=
         email_sender_queue w @ [assignmentEvent (next_uuid w) mail em ad]\<rparr>)"
  by (simp add: her_defs afterRecorded_def okResponse_def assignedTask_def recordedDecision_def
      assignmentEvent_def)


lemma her_outcomes [consumes 1, case_names no_data no_request no_email optimizer_failed
    generation_failed answer_missing not_notified queue_failed notified]:
  assumes run: "handleEmailReceived_with opt env event w = (res, w')"
  obtains
    "ev_data event = None" "res = Inl (TypeError ''Cannot destructure event.data'')" "w' = w"
  | d where "ev_data event = Some d" "ed_taskRequest d = None"
      "res = Inl (TypeError ''Cannot read properties of undefined (description)'')" "w' = w"
  | d tr where "ev_data event = Some d" "ed_taskRequest d = Some tr" "ed_email d = None"
      "res = Inl (TypeError ''Cannot read properties of undefined (from)'')"
      "w' = afterContext w"
  | d tr em err where "ev_data event = Some d" "ed_taskRequest d = Some tr"
      "ed_email d = Some em"
      "opt (optimizer_calls w) (newTask (next_uuid w) tr em (now w)) getTeamDataFromSheets = Inl err"
      "res = Inl err" "w' = afterPending (newTask (next_uuid w) tr em (now w)) w"
  | d tr em a err where "ev_data event = Some d" "ed_taskRequest d = Some tr"
      "ed_email d = Some em"
      "opt (optimizer_calls w) (newTask (next_uuid w) tr em (now w)) getTeamDataFromSheets = Inr a"
      "generateAssignment env (tr_description tr) getTeamDataFromSheets a (buildMemoryContext w) = Inl err"
      "res = Inl err"
      "w' = emit TextGeneration (afterPending (newTask (next_uuid w) tr em (now w)) w)"
  | d tr em ad where "ev_data event = Some d" "ed_taskRequest d = Some tr"
      "ed_email d = Some em"
      "opt (optimizer_calls w) (newTask (next_uuid w) tr em (now w)) getTeamDataFromSheets = Inr None"
      "generateAssignment env (tr_description tr) getTeamDataFromSheets None (buildMemoryContext w) = Inr ad"
      "res = Inl (TypeError ''Cannot read properties of undefined (assignment)'')"
      "w' = afterAssigned (newTask (next_uuid w) tr em (now w))
              (assignedTask (newTask (next_uuid w) tr em (now w)) ad (now w)) w"
  | d tr em r ad where "ev_data event = Some d" "ed_taskRequest d = Some tr"
      "ed_email d = Some em"
      "opt (optimizer_calls w) (newTask (next_uuid w) tr em (now w)) getTeamDataFromSheets = Inr (Some r)"
      "generateAssignment env (tr_description tr) getTeamDataFromSheets (Some r) (buildMemoryContext w) = Inr ad"
      "findTeamMemberEmail (assignee ad) getTeamDataFromSheets = None
         \<or> findTeamMemberEmail (assignee ad) getTeamDataFromSheets = Some []"
      "res = Inr (okResponse (assignedTask (newTask (next_uuid w) tr em (now w)) ad (now w)) ad)"
      "w' = afterRecorded (newTask (next_uuid w) tr em (now w))
              (assignedTask (newTask (next_uuid w) tr em (now w)) ad (now w))
              (recordedDecision (next_uuid w) r ad (now w)) w"
  | d tr em r ad mail where "ev_data event = Some d" "ed_taskRequest d = Some tr"
      "ed_email d = Some em"
      "opt (optimizer_calls w) (newTask (next_uuid w) tr em (now w)) getTeamDataFromSheets = Inr (Some r)"
      "generateAssignment env (tr_description tr) getTeamDataFromSheets (Some r) (buildMemoryContext w) = Inr ad"
      "findTeamMemberEmail (assignee ad) getTeamDataFromSheets = Some mail" "mail \<noteq> []"
      "\<not> lambda_send_email_sender env (assignmentEvent (next_uuid w) mail em ad)"
      "res = Inl (CollaboratorError ''Failed to queue assignment email'')"
      "w' = emit (InvokeEmailSender (assignmentEvent (next_uuid w) mail em ad))
              (afterRecorded (newTask (next_uuid w) tr em (now w))
                 (assignedTask (newTask (next_uuid w) tr em (now w)) ad (now w))
                 (recordedDecision (next_uuid w) r ad (now w)) w)"
  | d tr em r ad mail where "ev_data event = Some d" "ed_taskRequest d = Some tr"
      "ed_email d = Some em"
      "opt (optimizer_calls w) (newTask (next_uuid w) tr em (now w)) getTeamDataFromSheets = Inr (Some r)"
      "generateAssignment env (tr_description tr) getTeamDataFromSheets (Some r) (buildMemoryContext w) = Inr ad"
      "findTeamMemberEmail (assignee ad) getTeamDataFromSheets = Some mail" "mail \<noteq> []"
      "lambda_send_email_sender env (assignmentEvent (next_uuid w) mail em ad)"
      "res = Inr (okResponse (assignedTask (newTask (next_uuid w) tr em (now w)) ad (now w)) ad)"
      "w' = (emit (InvokeEmailSender (assignmentEvent (next_uuid w) mail em ad))
              (afterRecorded (newTask (next_uuid w) tr em (now w))
                 (assignedTask (newTask (next_uuid w) tr em (now w)) ad (now w))
                 (recordedDecision (next_uuid w) r ad (now w)) w))
            \<lparr>email_sender_queue :=
               email_sender_queue w @ [assignmentEvent (next_uuid w) mail em ad]\<rparr>"
proof (cases "ev_data event")
  case None
  with run her_no_data [OF None, of opt env w] that(1) show ?thesis by simp
next
  case (Some d)
  note data = Some
  show ?thesis
  proof (cases "ed_taskRequest d")
    case None
    with run her_no_request [OF data None, of opt env w] that(2) data show ?thesis by simp
  next
    case (Some tr)
    note request = Some
    show ?thesis
    proof (cases "ed_email d")
      case None
      with run her_no_email [OF data request None, of opt env w] that(3) data request
      show ?thesis by simp
    next
      case (Some em)
      note mail = Some
      let ?t = "newTask (next_uuid w) tr em (now w)"
      show ?thesis
      proof (cases "opt (optimizer_calls w) ?t getTeamDataFromSheets")
        case (Inl err)
        with run her_optimizer_failed [where opt = opt and w = w and env = env, OF data request mail Inl] that(4) data request mail
        show ?thesis by simp
      next
        case (Inr a)
        note answer = Inr
        show ?thesis
        proof (cases "generateAssignment env (tr_description tr) getTeamDataFromSheets a
                        (buildMemoryContext w)")
          case (Inl err)
          with run her_generation_failed [where opt = opt and w = w and env = env,
              OF data request mail answer Inl] that(5) data request mail answer
          show ?thesis by simp
        next
          case (Inr ad)
          note gen = Inr
          show ?thesis
          proof (cases a)
            case None
            with run her_answer_missing [where opt = opt and w = w and env = env,
                OF data request mail answer [unfolded None] gen [unfolded None]] that(6)
              data request mail answer gen
            show ?thesis by simp
          next
            case (Some r)
            note found = answer [unfolded Some] gen [unfolded Some]
            show ?thesis
            proof (cases "findTeamMemberEmail (assignee ad) getTeamDataFromSheets = None
                          \<or> findTeamMemberEmail (assignee ad) getTeamDataFromSheets = Some []")
              case True
              with run her_not_notified [where opt = opt and w = w and env = env,
                  OF data request mail found True] that(7) data request mail found
              show ?thesis by simp
            next
              case False
              then obtain addr where addr:
                "findTeamMemberEmail (assignee ad) getTeamDataFromSheets = Some addr"
                "addr \<noteq> []"
                by (cases "findTeamMemberEmail (assignee ad) getTeamDataFromSheets") auto
              show ?thesis
              proof (cases "lambda_send_email_sender env
                              (assignmentEvent (next_uuid w) addr em ad)")
                case True
                with run her_notified [where opt = opt and w = w and env = env,
                    OF data request mail found addr True] that(9) data request mail found addr
                show ?thesis by simp
              next
                case False
                with run her_queue_failed [where opt = opt and w = w and env = env,
                    OF data request mail found addr False] that(8)
                  data request mail found addr
                show ?thesis by simp
              qed
            qed
          qed
        qed
      qed
    qed
  qed
qed

text \<open>
  An answer of the optimizer that is \<open>undefined\<close>: the text generator is still called, the
  Task is stored as assigned, and the run then fails before any Decision is stored.
\<close>

lemma missing_answer_run:
  "fst (orchestrator_handler_with silent_optimizer env_alex sample_event empty_world)
     = \<lparr>statusCode = 500, body = ErrorBody ''Internal server error''\<rparr>
   \<and> map (status \<circ> snd)
        (tasks (snd (orchestrator_handler_with silent_optimizer env_alex sample_event
                       empty_world))) = [Assigned]
   \<and> decisions (snd (orchestrator_handler_with silent_optimizer env_alex sample_event
                       empty_world)) = []"
  by (simp add: orchestrator_handler_with_def her_defs getTeamDataFromSheets_def newTask_def
      buildMemoryContext_def silent_optimizer_def env_alex_def pick_alex_def sample_event_def
      sample_email_def sample_request_def sample_message_def empty_world_def)

text \<open>The optimizer of the source answers every call on its roster, with the same object.\<close>

lemma source_optimizer_answers:
  "getSchedulerRecommendation t getTeamDataFromSheets =
     Inr (Some \<lparr>assignment =
                   Some \<lparr>r_assignee = Some ''Alex'', r_confidence = Some (Num (85 / 100)),
                         r_rationale = ''Best skill match and lowest workload''\<rparr>,
                 alternatives =
                   [\<lparr>r_assignee = Some ''Sarah'', r_confidence = Some (Num (65 / 100)),
                     r_rationale = ''Has some relevant skills but higher workload''\<rparr>]\<rparr>)"
  by (simp add: getSchedulerRecommendation_def getTeamDataFromSheets_def)


lemmas world_after = afterContext_def afterPending_def afterAssigned_def afterRecorded_def
  emit_def

lemmas sample_defs = empty_world_def env_alex_def env_bob_def pick_alex_def pick_bob_def
  sample_event_def sample_email_def sample_request_def sample_message_def
  event_without_message_def event_without_email_def event_without_request_def
  event_without_data_def unknown_event_def

lemmas eval_defs = her_defs getTeamDataFromSheets_def getSchedulerRecommendation_def
  findTeamMemberEmail_def newTask_def buildMemoryContext_def decisionConfidence_def
  orchestrator_handler_with_def orchestrator_handler_def handleEmailReceived_def


section \<open>The confidence of the recorded Decision\<close>

lemma decisionConfidence_rule:
  "(\<forall>c. recommendedConfidence r = Some (Num c) \<longrightarrow> c \<noteq> 0 \<longrightarrow> decisionConfidence r = Num c)
   \<and> (recommendedConfidence r = None \<or> recommendedConfidence r = Some (Num 0)
        \<or> recommendedConfidence r = Some NaN \<longrightarrow> decisionConfidence r = Num (8 / 10))
   \<and> decisionConfidence r \<noteq> Num 0"
  by (auto simp add: recommendedConfidence_def decisionConfidence_def
      split: option.splits jsnum.splits)


text \<open>
  C9. In every run of \<open>handleEmailReceived\<close>, whatever the optimizer answers: the run either
  records no Decision or appends exactly one, and the confidence of that Decision is the
  confidence of the optimizer's primary recommendation when that value is present and not
  zero, and 0.8 when the primary recommendation or its confidence is absent, or the
  confidence is 0 (or NaN, which is falsy as well); it is never 0.
\<close>

theorem recorded_confidence:
  assumes run: "handleEmailReceived_with opt env event w = (res, w')"
  shows "decisions w' = decisions w \<or>
    (\<exists>dec r d tr em.
       decisions w' = decisions w @ [dec]
       \<and> ev_data event = Some d \<and> ed_taskRequest d = Some tr \<and> ed_email d = Some em
       \<and> opt (optimizer_calls w) (newTask (next_uuid w) tr em (now w)) getTeamDataFromSheets
           = Inr (Some r)
       \<and> (\<forall>c. recommendedConfidence r = Some (Num c) \<longrightarrow> c \<noteq> 0 \<longrightarrow> d_confidence dec = Num c)
       \<and> (recommendedConfidence r = None \<or> recommendedConfidence r = Some (Num 0)
            \<or> recommendedConfidence r = Some NaN \<longrightarrow> d_confidence dec = Num (8 / 10))
       \<and> d_confidence dec \<noteq> Num 0)"
  using run
proof (cases rule: her_outcomes)
  case (not_notified d tr em r ad)
  have "d_confidence (recordedDecision (next_uuid w) r ad (now w)) = decisionConfidence r"
    by (simp add: recordedDecision_def)
  with not_notified decisionConfidence_rule [of r] show ?thesis
    by (simp add: world_after)
next
  case (queue_failed d tr em r ad mail)
  have "d_confidence (recordedDecision (next_uuid w) r ad (now w)) = decisionConfidence r"
    by (simp add: recordedDecision_def)
  with queue_failed decisionConfidence_rule [of r] show ?thesis
    by (simp add: world_after)
next
  case (notified d tr em r ad mail)
  have "d_confidence (recordedDecision (next_uuid w) r ad (now w)) = decisionConfidence r"
    by (simp add: recordedDecision_def)
  with notified decisionConfidence_rule [of r] show ?thesis
    by (simp add: world_after)
qed (simp_all add: world_after)


text \<open>
  An optimizer answer without a primary recommendation gives a Decision with confidence
  0.8; the source's own optimizer gives 0.85.
\<close>

theorem recorded_confidence_witness:
  "decisions (snd (handleEmailReceived_with bare_optimizer env_alex sample_event empty_world))
     = [\<lparr>d_taskId = 0, d_assignedTo = ''Alex'', d_rationale = ''You wrote the endpoints'',
         d_timestamp = 100, d_confidence = Num (8 / 10)\<rparr>]
   \<and> decisions (snd (handleEmailReceived env_alex sample_event empty_world))
     = [\<lparr>d_taskId = 0, d_assignedTo = ''Alex'', d_rationale = ''You wrote the endpoints'',
         d_timestamp = 100, d_confidence = Num (85 / 100)\<rparr>]"
  using recorded_confidence [of bare_optimizer env_alex sample_event empty_world
      "fst (handleEmailReceived_with bare_optimizer env_alex sample_event empty_world)"
      "snd (handleEmailReceived_with bare_optimizer env_alex sample_event empty_world)"]
  by (simp add: eval_defs sample_defs bare_optimizer_def)


section \<open>An assignee who is on no roster\<close>

lemma findTeamMemberEmail_None:
  "list_all (\<lambda>m. name m \<noteq> n) team \<Longrightarrow> findTeamMemberEmail n team = None"
  by (induction team) (simp_all add: findTeamMemberEmail_def)

lemma handler_email_received:
  "ev_type event = ''email_received'' \<Longrightarrow>
   orchestrator_handler_with opt env event w =
     (case handleEmailReceived_with opt env event w of
        (Inr resp, w') \<Rightarrow> (resp, w')
      | (Inl err, w') \<Rightarrow> (errorResponse, w'))"
  by (simp add: orchestrator_handler_with_def errorResponse_def split: prod.splits sum.splits)

lemma getTask_afterRecorded [simp]:
  "getTask (afterRecorded t t' dec w) (next_uuid w) = Some t'"
  by (simp add: getTask_def afterRecorded_def update_conv')

text \<open>
  C10. When the assignee named by the text generator is the name of no roster entry, the run
  still stores the Task with status assigned, still appends a Decision, does not invoke the
  email-sender Lambda at all, and answers with the 200 response "Task assigned
  successfully": no error, no notification.
\<close>

theorem unknown_assignee_run:
  assumes ty: "ev_type event = ''email_received''"
    and data: "ev_data event = Some d" "ed_taskRequest d = Some tr" "ed_email d = Some em"
    and rec: "getSchedulerRecommendation (newTask (next_uuid w) tr em (now w))
                getTeamDataFromSheets = Inr (Some r)"
    and gen: "generateAssignment env (tr_description tr) getTeamDataFromSheets (Some r)
                (buildMemoryContext w) = Inr ad"
    and unknown: "list_all (\<lambda>m. name m \<noteq> assignee ad) getTeamDataFromSheets"
    and run: "orchestrator_handler env event w = (resp, w')"
  shows "\<exists>t' dec.
           statusCode resp = 200
         \<and> body resp = AssignedBody ''Task assigned successfully'' t' ad
         \<and> status t' = Assigned \<and> assignedTo t' = Some (assignee ad)
         \<and> getTask w' (next_uuid w) = Some t'
         \<and> decisions w' = decisions w @ [dec]
         \<and> d_taskId dec = next_uuid w \<and> d_assignedTo dec = assignee ad
         \<and> email_sender_queue w' = email_sender_queue w
         \<and> filter is_dispatch (drop (length (trace w)) (trace w')) = []"
proof -
  let ?t = "newTask (next_uuid w) tr em (now w)"
  have none: "findTeamMemberEmail (assignee ad) getTeamDataFromSheets = None
                \<or> findTeamMemberEmail (assignee ad) getTeamDataFromSheets = Some []"
    using unknown by (simp add: findTeamMemberEmail_None)
  have "handleEmailReceived_with (\<lambda>n. getSchedulerRecommendation) env event w =
          (Inr (okResponse (assignedTask ?t ad (now w)) ad),
           afterRecorded ?t (assignedTask ?t ad (now w))
             (recordedDecision (next_uuid w) r ad (now w)) w)"
    using data rec gen none
    by (rule her_not_notified [where opt = "\<lambda>n. getSchedulerRecommendation"])
  with ty run have resp: "resp = okResponse (assignedTask ?t ad (now w)) ad"
    and w': "w' = afterRecorded ?t (assignedTask ?t ad (now w))
                    (recordedDecision (next_uuid w) r ad (now w)) w"
    by (simp_all add: orchestrator_handler_def handler_email_received)
  show ?thesis
    apply (rule exI [of _ "assignedTask ?t ad (now w)"])
    apply (rule exI [of _ "recordedDecision (next_uuid w) r ad (now w)"])
    apply (simp add: resp w' okResponse_def)
    apply (simp add: afterRecorded_def recordedDecision_def is_dispatch_def)
    done
qed


text \<open>The text generator names Bob; the roster has Alex and Sarah.\<close>

theorem unknown_assignee_run_witness:
  "statusCode (fst (orchestrator_handler env_bob sample_event empty_world)) = 200
   \<and> map (\<lambda>p. (fst p, status (snd p), assignedTo (snd p)))
        (tasks (snd (orchestrator_handler env_bob sample_event empty_world)))
       = [(0, Assigned, Some ''Bob'')]
   \<and> map d_assignedTo (decisions (snd (orchestrator_handler env_bob sample_event empty_world)))
       = [''Bob'']
   \<and> email_sender_queue (snd (orchestrator_handler env_bob sample_event empty_world)) = []"
proof -
  let ?run = "orchestrator_handler env_bob sample_event empty_world"
  let ?t = "newTask 0 sample_request sample_email 100"
  obtain r where r: "getSchedulerRecommendation ?t getTeamDataFromSheets = Inr (Some r)"
    by (simp add: getSchedulerRecommendation_def getTeamDataFromSheets_def)
  have "\<exists>t' dec.
           statusCode (fst ?run) = 200
         \<and> body (fst ?run) = AssignedBody ''Task assigned successfully'' t' pick_bob
         \<and> status t' = Assigned \<and> assignedTo t' = Some (assignee pick_bob)
         \<and> getTask (snd ?run) (next_uuid empty_world) = Some t'
         \<and> decisions (snd ?run) = decisions empty_world @ [dec]
         \<and> d_taskId dec = next_uuid empty_world \<and> d_assignedTo dec = assignee pick_bob
         \<and> email_sender_queue (snd ?run) = email_sender_queue empty_world
         \<and> filter is_dispatch (drop (length (trace empty_world)) (trace (snd ?run))) = []"
  proof (rule unknown_assignee_run [where d = "\<lparr>ed_email = Some sample_email,
        ed_taskRequest = Some sample_request, ed_message = Some sample_message\<rparr>"
        and tr = sample_request and em = sample_email and r = r])
    show "ev_type sample_event = ''email_received''" by (simp add: sample_event_def)
    show "ev_data sample_event = Some \<lparr>ed_email = Some sample_email,
        ed_taskRequest = Some sample_request, ed_message = Some sample_message\<rparr>"
      by (simp add: sample_event_def)
    show "getSchedulerRecommendation
            (newTask (next_uuid empty_world) sample_request sample_email (now empty_world))
            getTeamDataFromSheets = Inr (Some r)"
      using r by (simp add: empty_world_def)
    show "generateAssignment env_bob (tr_description sample_request) getTeamDataFromSheets (Some r)
            (buildMemoryContext empty_world) = Inr pick_bob"
      by (simp add: env_bob_def env_alex_def)
    show "list_all (\<lambda>m. name m \<noteq> assignee pick_bob) getTeamDataFromSheets"
      by (simp add: getTeamDataFromSheets_def pick_bob_def)
  qed simp_all
  then show ?thesis
    by (simp add: eval_defs sample_defs)
qed


section \<open>The order of the writes of one run\<close>

lemma handler_other_types:
  "ev_type event \<noteq> ''email_received'' \<Longrightarrow> ev_type event \<noteq> ''health_check'' \<Longrightarrow>
   snd (orchestrator_handler_with opt env event w) = w"
  by (simp add: orchestrator_handler_with_def handleManualTask_def)

lemma handler_health_check:
  "ev_type event = ''health_check'' \<Longrightarrow>
   snd (orchestrator_handler_with opt env event w) = emit GetMemoryStats w"
  by (simp add: orchestrator_handler_with_def handleHealthCheck_def)

text \<open>
  C3. In every invocation of the orchestrator, whatever the optimizer and the other services
  answer and wherever the run stops, the effects of the run come in the order: the Task
  stored with status assigned, then the Decision appended, then the email-sender Lambda
  invoked. The automaton \<open>in_order\<close> rejects a Decision before the status change and an
  invocation before the Decision.
\<close>

theorem run_order:
  assumes run: "orchestrator_handler_with opt env event w = (resp, w')"
  shows "\<exists>new. trace w' = trace w @ new \<and> in_order 0 new"
proof (cases "ev_type event = ''email_received''")
  case False
  show ?thesis
  proof (cases "ev_type event = ''health_check''")
    case True
    with run handler_health_check [of event opt env w] have "w' = emit GetMemoryStats w"
      by simp
    then show ?thesis by (simp add: emit_def)
  next
    case False
    with \<open>ev_type event \<noteq> ''email_received''\<close> run handler_other_types [of event opt env w]
    have "w' = w" by simp
    then show ?thesis by simp
  qed
next
  case True
  obtain res v where her: "handleEmailReceived_with opt env event w = (res, v)"
    by (cases "handleEmailReceived_with opt env event w")
  with True run have v: "w' = v"
    by (simp add: handler_email_received split: sum.splits)
  from her show ?thesis
  proof (cases rule: her_outcomes)
    case no_data
    with v show ?thesis by simp
  next
    case (no_request d)
    with v show ?thesis by simp
  next
    case (no_email d tr)
    with v show ?thesis by (simp add: world_after)
  next
    case (optimizer_failed d tr em err)
    with v show ?thesis by (simp add: world_after)
  next
    case (generation_failed d tr em a err)
    with v show ?thesis by (simp add: world_after)
  next
    case (answer_missing d tr em ad)
    with v show ?thesis by (simp add: world_after)
  next
    case (not_notified d tr em r ad)
    with v show ?thesis by (simp add: world_after)
  next
    case (queue_failed d tr em r ad mail)
    with v show ?thesis by (simp add: world_after)
  next
    case (notified d tr em r ad mail)
    with v show ?thesis by (simp add: world_after)
  qed
qed


text \<open>A run that goes all the way: its eight effects, in order.\<close>

theorem run_order_witness:
  "trace (snd (orchestrator_handler_with (\<lambda>n. getSchedulerRecommendation) env_alex
            sample_event empty_world)) =
     [BuildMemoryContext,
      StoreActiveTask (newTask 0 sample_request sample_email 100),
      GetTeamData, ConsultOptimizer, TextGeneration,
      StoreActiveTask (assignedTask (newTask 0 sample_request sample_email 100) pick_alex 100),
      StoreDecision \<lparr>d_taskId = 0, d_assignedTo = ''Alex'',
        d_rationale = ''You wrote the endpoints'', d_timestamp = 100,
        d_confidence = Num (85 / 100)\<rparr>,
      InvokeEmailSender (assignmentEvent 0 ''alex@team.com'' sample_email pick_alex)]
   \<and> in_order 0 (trace (snd (orchestrator_handler_with (\<lambda>n. getSchedulerRecommendation)
                               env_alex sample_event empty_world)))"
  using run_order [of "\<lambda>n. getSchedulerRecommendation" env_alex sample_event empty_world
      "fst (orchestrator_handler_with (\<lambda>n. getSchedulerRecommendation) env_alex sample_event
              empty_world)"
      "snd (orchestrator_handler_with (\<lambda>n. getSchedulerRecommendation) env_alex sample_event
              empty_world)"]
  by (simp add: eval_defs sample_defs assignedTask_def assignmentEvent_def)


section \<open>A Task nobody on the roster is qualified for\<close>

lemma recommendation_of_source:
  "getSchedulerRecommendation t getTeamDataFromSheets = Inr (Some r) \<Longrightarrow>
   decisionConfidence r = Num (85 / 100)"
  by (auto simp add: getSchedulerRecommendation_def getTeamDataFromSheets_def
      decisionConfidence_def)

text \<open>
  C2, as stated, fails. The Task of the sample event requires the capability "quantum", which
  neither Alex nor Sarah holds; the run still records a Decision for Alex with confidence
  0.85 and queues an assignment email.
\<close>

theorem no_candidate_counterexample:
  "no_candidate (tr_skillsRequired sample_request) getTeamDataFromSheets
   \<and> decisions (snd (orchestrator_handler env_alex sample_event empty_world))
       = [\<lparr>d_taskId = 0, d_assignedTo = ''Alex'', d_rationale = ''You wrote the endpoints'',
           d_timestamp = 100, d_confidence = Num (85 / 100)\<rparr>]
   \<and> map es_type
        (email_sender_queue (snd (orchestrator_handler env_alex sample_event empty_world)))
       = [''assignment_email'']"
  by (simp add: eval_defs sample_defs no_candidate_def satisfies_def)

text \<open>
  C2, amended. \<open>handleEmailReceived\<close> never looks at the required capabilities: a run that
  records a Decision records the assignee the text generator named, with confidence 0.85,
  whatever the Task requires; and the only notification it queues is an assignment email
  to the roster address of that assignee.
\<close>

theorem capability_blind_run:
  assumes run: "handleEmailReceived env event w = (res, w')"
  shows "(decisions w' = decisions w \<and> email_sender_queue w' = email_sender_queue w)
    \<or> (\<exists>dec d tr em r ad.
          decisions w' = decisions w @ [dec]
        \<and> ev_data event = Some d \<and> ed_taskRequest d = Some tr \<and> ed_email d = Some em
        \<and> getSchedulerRecommendation (newTask (next_uuid w) tr em (now w))
             getTeamDataFromSheets = Inr (Some r)
        \<and> generateAssignment env (tr_description tr) getTeamDataFromSheets (Some r)
             (buildMemoryContext w) = Inr ad
        \<and> d_assignedTo dec = assignee ad
        \<and> d_confidence dec = Num (85 / 100)
        \<and> (email_sender_queue w' = email_sender_queue w
            \<or> (\<exists>ev mail. email_sender_queue w' = email_sender_queue w @ [ev]
                  \<and> es_type ev = ''assignment_email''
                  \<and> findTeamMemberEmail (assignee ad) getTeamDataFromSheets = Some mail
                  \<and> first_recipient (p_to (emailData ev)) = Some mail)))"
  using run unfolding handleEmailReceived_def
proof (cases rule: her_outcomes)
  case (not_notified d tr em r ad)
  from not_notified(4) have "decisionConfidence r = Num (85 / 100)"
    by (rule recommendation_of_source)
  with not_notified show ?thesis
    by (simp add: world_after recordedDecision_def; blast)
next
  case (queue_failed d tr em r ad mail)
  from queue_failed(4) have "decisionConfidence r = Num (85 / 100)"
    by (rule recommendation_of_source)
  with queue_failed show ?thesis
    by (simp add: world_after recordedDecision_def; blast)
next
  case (notified d tr em r ad mail)
  from notified(4) have "decisionConfidence r = Num (85 / 100)"
    by (rule recommendation_of_source)
  with notified show ?thesis
    by (simp add: world_after recordedDecision_def assignmentEvent_def first_recipient_def;
        blast)
qed (simp_all add: world_after)


theorem capability_blind_run_witness:
  "map (\<lambda>d. (d_assignedTo d, d_confidence d))
     (decisions (snd (handleEmailReceived env_alex sample_event empty_world)))
       = [(''Alex'', Num (85 / 100))]
   \<and> map (\<lambda>e. (es_type e, p_to (emailData e)))
       (email_sender_queue (snd (handleEmailReceived env_alex sample_event empty_world)))
       = [(''assignment_email'', [''alex@team.com'', ''boss@team.com''])]"
  using capability_blind_run [of env_alex sample_event empty_world
      "fst (handleEmailReceived env_alex sample_event empty_world)"
      "snd (handleEmailReceived env_alex sample_event empty_world)"]
  by (simp add: eval_defs sample_defs)


section \<open>The same event delivered twice\<close>

lemma update_fresh:
  "k \<notin> fst ` set al \<Longrightarrow> AList.update k v al = al @ [(k, v)]"
  by (induction al) auto

lemma fresh_ids_next: "fresh_ids w \<Longrightarrow> next_uuid w \<notin> fst ` set (tasks w)"
  by (auto simp add: fresh_ids_def list_all_iff)

lemma fresh_ids_append:
  "fresh_ids w \<Longrightarrow> tasks w' = tasks w @ [(next_uuid w, t)] \<Longrightarrow>
   next_uuid w' = Suc (next_uuid w) \<Longrightarrow> fresh_ids w'"
  by (auto simp add: fresh_ids_def list_all_iff)

lemma delivery_creates_task:
  assumes fresh: "fresh_ids w"
    and data: "ev_data event = Some d" "ed_taskRequest d = Some tr" "ed_email d = Some em"
    and run: "handleEmailReceived_with opt env event w = (res, w')"
  shows "\<exists>t. tasks w' = tasks w @ [(next_uuid w, t)]
             \<and> description t = tr_description tr \<and> requestedBy t = e_from em
             \<and> next_uuid w' = Suc (next_uuid w)"
  using run
proof (cases rule: her_outcomes)
  case (optimizer_failed d tr em err)
  with data fresh_ids_next [OF fresh] show ?thesis
    by (simp add: world_after update_fresh)
next
  case (generation_failed d tr em a err)
  with data fresh_ids_next [OF fresh] show ?thesis
    by (simp add: world_after update_fresh)
next
  case (answer_missing d tr em ad)
  with data fresh_ids_next [OF fresh] show ?thesis
    by (simp add: world_after update_fresh assignedTask_def newTask_def)
next
  case (not_notified d tr em r ad)
  with data fresh_ids_next [OF fresh] show ?thesis
    by (simp add: world_after update_fresh assignedTask_def newTask_def)
next
  case (queue_failed d tr em r ad mail)
  with data fresh_ids_next [OF fresh] show ?thesis
    by (simp add: world_after update_fresh assignedTask_def newTask_def)
next
  case (notified d tr em r ad mail)
  with data fresh_ids_next [OF fresh] show ?thesis
    by (simp add: world_after update_fresh assignedTask_def newTask_def)
qed (use data in \<open>simp_all add: world_after\<close>)

text \<open>The \<open>message\<close> of the payload, which carries the Message id, is never read.\<close>

lemma message_never_read:
  "handleEmailReceived_with opt env (event\<lparr>ev_data := Some (d\<lparr>ed_message := m\<rparr>)\<rparr>) w =
   handleEmailReceived_with opt env (event\<lparr>ev_data := Some d\<rparr>) w"
  by (simp add: handleEmailReceived_with_def split: option.splits)

text \<open>
  C1, as stated, fails. The sample event, with Message id "msg-1", is handled twice on an
  empty store: the store then holds two Tasks, under the ids 0 and 1, with the same
  description and requester, each with its own Decision and its own queued email.
\<close>

theorem duplicate_delivery_counterexample:
  "map fst (tasks (snd (orchestrator_handler env_alex sample_event
               (snd (orchestrator_handler env_alex sample_event empty_world))))) = [0, 1]
   \<and> map (description \<circ> snd) (tasks (snd (orchestrator_handler env_alex sample_event
               (snd (orchestrator_handler env_alex sample_event empty_world)))))
       = [''Calibrate the quantum rig'', ''Calibrate the quantum rig'']
   \<and> map (requestedBy \<circ> snd) (tasks (snd (orchestrator_handler env_alex sample_event
               (snd (orchestrator_handler env_alex sample_event empty_world)))))
       = [''boss@team.com'', ''boss@team.com'']
   \<and> map d_taskId (decisions (snd (orchestrator_handler env_alex sample_event
               (snd (orchestrator_handler env_alex sample_event empty_world))))) = [0, 1]
   \<and> map taskId (email_sender_queue (snd (orchestrator_handler env_alex sample_event
               (snd (orchestrator_handler env_alex sample_event empty_world)))))
       = [Some 0, Some 1]"
  by (simp add: eval_defs sample_defs)

text \<open>
  C1, amended. Every \<open>email_received\<close> event whose payload has \<open>email\<close> and
  \<open>taskRequest\<close> creates a new Task under a newly generated id each time it is handled,
  whatever Message id it carries: handled twice, the same event leaves two Tasks with the
  same description and requester. (\<open>fresh_ids\<close>: the ids of the store were generated
  earlier, so that \<open>uuidv4\<close> does not repeat one.)
\<close>

theorem every_delivery_creates_a_task:
  assumes fresh: "fresh_ids w"
    and ty: "ev_type event = ''email_received''"
    and data: "ev_data event = Some d" "ed_taskRequest d = Some tr" "ed_email d = Some em"
    and first: "orchestrator_handler env event w = (resp1, w1)"
    and second: "orchestrator_handler env event w1 = (resp2, w2)"
  shows "\<exists>t1 t2.
           tasks w2 = tasks w @ [(next_uuid w, t1), (Suc (next_uuid w), t2)]
         \<and> description t1 = tr_description tr \<and> requestedBy t1 = e_from em
         \<and> description t2 = tr_description tr \<and> requestedBy t2 = e_from em"
proof -
  let ?opt = "\<lambda>n::nat. getSchedulerRecommendation"
  obtain res1 where r1: "handleEmailReceived_with ?opt env event w = (res1, w1)"
    using first ty
    by (cases "handleEmailReceived_with ?opt env event w")
      (auto simp add: orchestrator_handler_def handler_email_received split: sum.splits)
  obtain res2 where r2: "handleEmailReceived_with ?opt env event w1 = (res2, w2)"
    using second ty
    by (cases "handleEmailReceived_with ?opt env event w1")
      (auto simp add: orchestrator_handler_def handler_email_received split: sum.splits)
  from delivery_creates_task [OF fresh data r1] obtain t1 where
    t1: "tasks w1 = tasks w @ [(next_uuid w, t1)]" "description t1 = tr_description tr"
      "requestedBy t1 = e_from em" "next_uuid w1 = Suc (next_uuid w)"
    by blast
  from fresh t1(1,4) have fresh1: "fresh_ids w1" by (rule fresh_ids_append)
  from delivery_creates_task [OF fresh1 data r2] obtain t2 where
    t2: "tasks w2 = tasks w1 @ [(next_uuid w1, t2)]" "description t2 = tr_description tr"
      "requestedBy t2 = e_from em"
    by blast
  from t1 t2 show ?thesis by simp
qed


theorem every_delivery_creates_a_task_witness:
  "fresh_ids empty_world
   \<and> map fst (tasks (snd (orchestrator_handler env_alex sample_event
               (snd (orchestrator_handler env_alex sample_event empty_world))))) = [0, 1]"
proof -
  let ?w1 = "snd (orchestrator_handler env_alex sample_event empty_world)"
  let ?w2 = "snd (orchestrator_handler env_alex sample_event ?w1)"
  have fresh: "fresh_ids empty_world" by (simp add: fresh_ids_def empty_world_def)
  have "\<exists>t1 t2.
           tasks ?w2 = tasks empty_world
             @ [(next_uuid empty_world, t1), (Suc (next_uuid empty_world), t2)]
         \<and> description t1 = tr_description sample_request \<and> requestedBy t1 = e_from sample_email
         \<and> description t2 = tr_description sample_request \<and> requestedBy t2 = e_from sample_email"
    by (rule every_delivery_creates_a_task [where
          d = "\<lparr>ed_email = Some sample_email, ed_taskRequest = Some sample_request,
                ed_message = Some sample_message\<rparr>"
          and ?resp1.0 = "fst (orchestrator_handler env_alex sample_event empty_world)"
          and ?resp2.0 = "fst (orchestrator_handler env_alex sample_event ?w1)", OF fresh])
      (simp_all add: sample_event_def)
  then obtain t1 t2 where "tasks ?w2 = tasks empty_world
             @ [(next_uuid empty_world, t1), (Suc (next_uuid empty_world), t2)]"
    by blast
  then have "map fst (tasks ?w2) = [0, 1]" by (simp add: empty_world_def)
  with fresh show ?thesis by simp
qed


section \<open>How often the optimizer is asked\<close>

text \<open>
  The handler awaits the optimizer once and has no loop around the call: whatever the
  optimizer and the other services answer, one invocation of the orchestrator asks it at
  most once.
\<close>

lemma optimizer_asked_at_most_once:
  assumes run: "orchestrator_handler_with opt env event w = (resp, w')"
  shows "optimizer_calls w' \<le> Suc (optimizer_calls w)"
proof (cases "ev_type event = ''email_received''")
  case False
  with run handler_other_types [of event opt env w] handler_health_check [of event opt env w]
  show ?thesis by (cases "ev_type event = ''health_check''") (auto simp add: emit_def)
next
  case True
  obtain res v where her: "handleEmailReceived_with opt env event w = (res, v)"
    by (cases "handleEmailReceived_with opt env event w")
  with True run have v: "w' = v"
    by (simp add: handler_email_received split: sum.splits)
  from her v show ?thesis
    by (cases rule: her_outcomes) (simp_all add: world_after)
qed


section \<open>Events no handler accepts\<close>

text \<open>
  C6, as stated, fails for malformed payloads. An \<open>email_received\<close> event whose payload
  lacks \<open>message\<close> is handled like a complete one: a Task is created and assigned, and the
  answer is 200.
\<close>

theorem malformed_payload_counterexample:
  "malformed_payload event_without_message
   \<and> statusCode (fst (orchestrator_handler env_alex event_without_message empty_world)) = 200
   \<and> map fst (tasks (snd (orchestrator_handler env_alex event_without_message empty_world)))
       = [0]
   \<and> map (status \<circ> snd)
        (tasks (snd (orchestrator_handler env_alex event_without_message empty_world)))
       = [Assigned]"
  by (simp add: eval_defs sample_defs malformed_payload_def)

text \<open>
  C6, amended. An event whose type matches no handler, or an \<open>email_received\<close> event whose
  payload lacks \<open>data\<close>, \<open>taskRequest\<close> or \<open>email\<close>, is answered with the 500 response
  "Internal server error" and creates no Task: nothing is stored, queued or sent and the
  optimizer is not asked. The trace, which has every awaited call, stays as it was, so no
  collaborator is called and nothing is tried again; the one exception is a payload that
  lacks only \<open>email\<close>, which is rejected after one read of the memory context.
\<close>

theorem unhandled_event_rejected:
  assumes bad: "\<not> recognized (ev_type event)
      \<or> (ev_type event = ''email_received'' \<and> lacks_field event)"
  shows "fst (orchestrator_handler env event w)
           = \<lparr>statusCode = 500, body = ErrorBody ''Internal server error''\<rparr>
       \<and> tasks (snd (orchestrator_handler env event w)) = tasks w
       \<and> decisions (snd (orchestrator_handler env event w)) = decisions w
       \<and> messages (snd (orchestrator_handler env event w)) = messages w
       \<and> email_sender_queue (snd (orchestrator_handler env event w)) = email_sender_queue w
       \<and> ses_outbox (snd (orchestrator_handler env event w)) = ses_outbox w
       \<and> optimizer_calls (snd (orchestrator_handler env event w)) = optimizer_calls w
       \<and> trace (snd (orchestrator_handler env event w))
           = trace w @ (if ev_type event = ''email_received'' \<and> lacks_only_email event
                        then [BuildMemoryContext] else [])"
proof (cases "ev_type event = ''email_received''")
  case False
  with bad have "\<not> recognized (ev_type event)" by blast
  then show ?thesis
    by (simp add: recognized_def orchestrator_handler_def orchestrator_handler_with_def)
next
  case True
  let ?opt = "\<lambda>n::nat. getSchedulerRecommendation"
  from True bad have "lacks_field event" by (auto simp add: recognized_def)
  then consider (a) "ev_data event = None"
    | (b) d where "ev_data event = Some d" "ed_taskRequest d = None"
    | (c) d tr where "ev_data event = Some d" "ed_taskRequest d = Some tr" "ed_email d = None"
    by (auto simp add: lacks_field_def split: option.splits)
  then show ?thesis
  proof cases
    case a
    with True her_no_data [of event ?opt env w] show ?thesis
      by (simp add: orchestrator_handler_def handler_email_received errorResponse_def
          lacks_only_email_def)
  next
    case b
    with True her_no_request [of event d ?opt env w] show ?thesis
      by (simp add: orchestrator_handler_def handler_email_received errorResponse_def
          lacks_only_email_def)
  next
    case c
    with True her_no_email [of event d tr ?opt env w] show ?thesis
      by (simp add: orchestrator_handler_def handler_email_received errorResponse_def
          lacks_only_email_def afterContext_def)
  qed
qed

text \<open>
  An event of an unknown type, and \<open>email_received\<close> events without \<open>data\<close>, without
  \<open>taskRequest\<close> and without \<open>email\<close>: all four are answered with 500 on a store that
  stays empty, and only the last one reads the memory context.
\<close>

theorem unhandled_event_rejected_witness:
  "\<not> recognized (ev_type unknown_event)
   \<and> fst (orchestrator_handler env_alex unknown_event empty_world)
       = \<lparr>statusCode = 500, body = ErrorBody ''Internal server error''\<rparr>
   \<and> snd (orchestrator_handler env_alex unknown_event empty_world) = empty_world
   \<and> lacks_field event_without_data
   \<and> fst (orchestrator_handler env_alex event_without_data empty_world)
       = \<lparr>statusCode = 500, body = ErrorBody ''Internal server error''\<rparr>
   \<and> snd (orchestrator_handler env_alex event_without_data empty_world) = empty_world
   \<and> lacks_field event_without_request
   \<and> fst (orchestrator_handler env_alex event_without_request empty_world)
       = \<lparr>statusCode = 500, body = ErrorBody ''Internal server error''\<rparr>
   \<and> snd (orchestrator_handler env_alex event_without_request empty_world) = empty_world
   \<and> lacks_field event_without_email
   \<and> fst (orchestrator_handler env_alex event_without_email empty_world)
       = \<lparr>statusCode = 500, body = ErrorBody ''Internal server error''\<rparr>
   \<and> tasks (snd (orchestrator_handler env_alex event_without_email empty_world)) = []
   \<and> trace (snd (orchestrator_handler env_alex event_without_email empty_world))
       = [BuildMemoryContext]"
proof -
  have unknown: "\<not> recognized (ev_type unknown_event)"
    by (simp add: recognized_def unknown_event_def)
  have no_data: "ev_type event_without_data = ''email_received''"
    "lacks_field event_without_data"
    by (simp_all add: lacks_field_def event_without_data_def)
  have no_request: "ev_type event_without_request = ''email_received''"
    "lacks_field event_without_request"
    by (simp_all add: lacks_field_def event_without_request_def)
  have no_email: "ev_type event_without_email = ''email_received''"
    "lacks_field event_without_email" "lacks_only_email event_without_email"
    by (simp_all add: lacks_field_def lacks_only_email_def event_without_email_def)
  have not_only: "\<not> lacks_only_email event_without_data"
    "\<not> lacks_only_email event_without_request"
    by (simp_all add: lacks_only_email_def event_without_data_def event_without_request_def)
  from unknown
    unhandled_event_rejected [of unknown_event env_alex empty_world]
    unhandled_event_rejected [of event_without_data env_alex empty_world]
    unhandled_event_rejected [of event_without_request env_alex empty_world]
    unhandled_event_rejected [of event_without_email env_alex empty_world]
    no_data no_request no_email not_only
  have "\<not> recognized (ev_type unknown_event)
   \<and> fst (orchestrator_handler env_alex unknown_event empty_world)
       = \<lparr>statusCode = 500, body = ErrorBody ''Internal server error''\<rparr>
   \<and> lacks_field event_without_data
   \<and> fst (orchestrator_handler env_alex event_without_data empty_world)
       = \<lparr>statusCode = 500, body = ErrorBody ''Internal server error''\<rparr>
   \<and> lacks_field event_without_request
   \<and> fst (orchestrator_handler env_alex event_without_request empty_world)
       = \<lparr>statusCode = 500, body = ErrorBody ''Internal server error''\<rparr>
   \<and> lacks_field event_without_email
   \<and> fst (orchestrator_handler env_alex event_without_email empty_world)
       = \<lparr>statusCode = 500, body = ErrorBody ''Internal server error''\<rparr>
   \<and> tasks (snd (orchestrator_handler env_alex event_without_email empty_world)) = []
   \<and> trace (snd (orchestrator_handler env_alex event_without_email empty_world))
       = [BuildMemoryContext]"
    by (simp add: empty_world_def)
  moreover have "snd (orchestrator_handler env_alex unknown_event empty_world) = empty_world"
    "snd (orchestrator_handler env_alex event_without_data empty_world) = empty_world"
    "snd (orchestrator_handler env_alex event_without_request empty_world) = empty_world"
    by (simp_all add: eval_defs sample_defs)
  ultimately show ?thesis by simp
qed


section \<open>The email-sender invoked again\<close>

lemmas sender_defs = email_sender_handler_def sender_sendAssignmentEmail_def
  sendNotificationEmail_def Let_def uuidv4_def storeMessage_def emit_def

lemma assignment_sent:
  assumes "es_type event = ''assignment_email''" "ses_send env (assignmentCall event)"
  shows "fst (email_sender_handler env event w)
           = \<lparr>statusCode = 200,
              body = SentBody ''Assignment email sent successfully'' (taskId event)
                       (p_to (emailData event))\<rparr>"
    and "ses_outbox (snd (email_sender_handler env event w))
           = ses_outbox w @ [assignmentCall event]"
    and "length (messages (snd (email_sender_handler env event w)))
           = Suc (length (messages w))"
    and "tasks (snd (email_sender_handler env event w)) = tasks w"
  using assms by (simp_all add: sender_defs assignmentCall_def)

text \<open>
  C4, as stated, fails. The email-sender is invoked twice with the same assignment event
  (same Task id, same recipients and text): the first invocation answers 200 after its send,
  and the second one sends the same email again.
\<close>

theorem dispatch_counterexample:
  "statusCode (fst (email_sender_handler env_alex sample_send empty_world)) = 200
   \<and> ses_outbox (snd (email_sender_handler env_alex sample_send empty_world))
       = [SesAssignment ''Unknown'' (Some ''alex@team.com'') [''boss@team.com'']
            ''Task Assignment - API Documentation'' ''You are on the API docs. Due Friday.''
            (Some 0)]
   \<and> ses_outbox (snd (email_sender_handler env_alex sample_send
         (snd (email_sender_handler env_alex sample_send empty_world))))
       = [SesAssignment ''Unknown'' (Some ''alex@team.com'') [''boss@team.com'']
            ''Task Assignment - API Documentation'' ''You are on the API docs. Due Friday.''
            (Some 0),
          SesAssignment ''Unknown'' (Some ''alex@team.com'') [''boss@team.com'']
            ''Task Assignment - API Documentation'' ''You are on the API docs. Due Friday.''
            (Some 0)]"
  by (simp add: sender_defs sample_defs sample_send_def assignmentEvent_def first_recipient_def)

text \<open>
  C4, amended. The email-sender has no idempotency key and keeps no record of what it sent:
  every invocation with an assignment event that the transport accepts makes one send and
  stores one outgoing Message, so \<open>n\<close> invocations with the same event make \<open>n\<close> sends.
\<close>

theorem every_dispatch_sends:
  assumes ty: "es_type event = ''assignment_email''"
    and ok: "ses_send env (assignmentCall event)"
  shows "ses_outbox (dispatch_times n env event w)
           = ses_outbox w @ replicate n (assignmentCall event)
       \<and> length (messages (dispatch_times n env event w)) = length (messages w) + n"
proof (induction n arbitrary: w)
  case 0
  show ?case by simp
next
  case (Suc n)
  from Suc [of "snd (email_sender_handler env event w)"] assignment_sent(2,3) [OF ty ok, of w]
  show ?case by (simp add: replicate_append_same)
qed


theorem every_dispatch_sends_witness:
  "es_type sample_send = ''assignment_email'' \<and> ses_send env_alex (assignmentCall sample_send)
   \<and> length (ses_outbox (dispatch_times 2 env_alex sample_send empty_world)) = 2
   \<and> length (messages (dispatch_times 2 env_alex sample_send empty_world)) = 2"
proof -
  have ty: "es_type sample_send = ''assignment_email''"
    by (simp add: sample_send_def assignmentEvent_def)
  have ok: "ses_send env_alex (assignmentCall sample_send)"
    by (simp add: env_alex_def)
  from every_dispatch_sends [OF ty ok, of 2 empty_world] ty ok show ?thesis
    by (simp add: empty_world_def)
qed


section \<open>The window of recent messages\<close>

lemma messages_storeMessages:
  "messages (storeMessages ms w) = messages w @ ms"
  unfolding storeMessages_def
  by (induction ms arbitrary: w) (simp_all add: storeMessage_def emit_def)

text \<open>
  C8. After \<open>M > N\<close> messages are stored, on top of whatever the store held, the Hot-tier read
  returns exactly the \<open>N\<close> messages stored last, in the order they were stored; the messages
  are arbitrary, so neither their timestamps nor their correspondents, sizes or types matter.
  With the default \<open>N = 20\<close> this is the window \<open>buildMemoryContext\<close> hands out.
\<close>

theorem hot_window_most_recent:
  assumes more: "n < length ms"
  shows "getRecentMessages n (storeMessages ms w) = drop (length ms - n) ms
       \<and> length (getRecentMessages n (storeMessages ms w)) = n
       \<and> (n = 20 \<longrightarrow>
            recentMessages (buildMemoryContext (storeMessages ms w)) = drop (length ms - 20) ms)"
proof -
  from more have "length (messages w @ ms) - n = length (messages w) + (length ms - n)"
    by simp
  then have "getRecentMessages n (storeMessages ms w) = drop (length ms - n) ms"
    by (simp add: getRecentMessages_def messages_storeMessages)
  moreover from more have "length (drop (length ms - n) ms) = n" by simp
  ultimately show ?thesis
    by (auto simp add: buildMemoryContext_def hot_window_default_def)
qed


text \<open>Three messages whose claimed timestamps run backwards, and a window of two.\<close>

theorem hot_window_most_recent_witness:
  "(2::nat) < length [numbered_message 0 30, numbered_message 1 20, numbered_message 2 10]
   \<and> getRecentMessages 2
        (storeMessages [numbered_message 0 30, numbered_message 1 20, numbered_message 2 10]
           empty_world)
       = [numbered_message 1 20, numbered_message 2 10]"
  using hot_window_most_recent [of 2
      "[numbered_message 0 30, numbered_message 1 20, numbered_message 2 10]" empty_world]
  by simp


section \<open>The status of a Task over the life of the system\<close>

lemma forward_refl [simp]: "forward s s"
  by (simp add: forward_def)

lemma forward_trans: "forward a b \<Longrightarrow> forward b c \<Longrightarrow> forward a c"
  by (auto simp add: forward_def)

lemma advance_forward: "advance a b \<Longrightarrow> forward a b"
  by (cases a; cases b) (simp_all add: advance_def forward_def)

lemma writes_forward_append:
  "writes_forward st (xs @ ys) = (writes_forward st xs \<and> writes_forward (replay st xs) ys)"
proof (induction xs arbitrary: st)
  case Nil
  show ?case by simp
next
  case (Cons e es)
  then show ?case by (cases e) simp_all
qed

lemma replay_append: "replay st (xs @ ys) = replay (replay st xs) ys"
proof (induction xs arbitrary: st)
  case Nil
  show ?case by simp
next
  case (Cons e es)
  then show ?case by (cases e) simp_all
qed

lemma no_task_write:
  "filter is_task_write es = [] \<Longrightarrow> writes_forward st es \<and> replay st es = st"
proof (induction es)
  case Nil
  show ?case by simp
next
  case (Cons e es)
  then show ?case by (cases e) (simp_all add: is_task_write_def split: if_splits)
qed

lemma writes_forward_status:
  "writes_forward st es \<Longrightarrow> map_of st i = Some s \<Longrightarrow>
   \<exists>s'. map_of (replay st es) i = Some s' \<and> forward s s'"
proof (induction es arbitrary: st s)
  case Nil
  then show ?case by simp
next
  case (Cons e es)
  show ?case
  proof (cases e)
    case (StoreActiveTask t)
    let ?st = "AList.update (task_id t) (status t) st"
    from Cons.prems StoreActiveTask have rest: "writes_forward ?st es" by simp
    show ?thesis
    proof (cases "task_id t = i")
      case True
      with Cons.prems StoreActiveTask have first: "forward s (status t)"
        by (simp add: advance_forward)
      from True have "map_of ?st i = Some (status t)" by (simp add: update_conv')
      from Cons.IH [OF rest this] obtain s' where
        "map_of (replay ?st es) i = Some s'" "forward (status t) s'"
        by auto
      with first StoreActiveTask show ?thesis
        by (auto intro: forward_trans)
    next
      case False
      with Cons.prems have "map_of ?st i = Some s" by (simp add: update_conv')
      from Cons.IH [OF rest this] StoreActiveTask show ?thesis by simp
    qed
  qed (use Cons in simp_all)
qed

lemma statuses_update:
  "map (\<lambda>p. (fst p, f (snd p))) (AList.update k v al)
     = AList.update k (f v) (map (\<lambda>p. (fst p, f (snd p))) al)"
  by (induction al) auto

lemma statuses_put:
  "tasks w' = AList.update k t (tasks w) \<Longrightarrow>
   statuses w' = AList.update k (status t) (statuses w)"
  by (simp add: statuses_def statuses_update)

lemma statuses_fresh: "fresh_ids w \<Longrightarrow> map_of (statuses w) (next_uuid w) = None"
  by (force simp add: statuses_def fresh_ids_def list_all_iff map_of_eq_None_iff)

lemma statuses_cong: "tasks w' = tasks w \<Longrightarrow> statuses w' = statuses w"
  by (simp add: statuses_def)

lemma fresh_ids_same_tasks:
  "fresh_ids w \<Longrightarrow> tasks w' = tasks w \<Longrightarrow> next_uuid w \<le> next_uuid w' \<Longrightarrow> fresh_ids w'"
  by (auto simp add: fresh_ids_def list_all_iff)

lemma fresh_ids_put:
  "fresh_ids w \<Longrightarrow> tasks w' = AList.update (next_uuid w) t (tasks w) \<Longrightarrow>
   next_uuid w' = Suc (next_uuid w) \<Longrightarrow> fresh_ids w'"
  using fresh_ids_append [of w w' t] fresh_ids_next [of w]
  by (simp add: update_fresh)

lemma step_ok_no_write:
  assumes "fresh_ids w" "tasks w' = tasks w" "next_uuid w \<le> next_uuid w'"
    "trace w' = trace w @ new" "filter is_task_write new = []"
  shows "step_ok w w' new"
  using assms no_task_write [of new "statuses w"] statuses_cong [of w' w]
    fresh_ids_same_tasks [of w w']
  by (simp add: step_ok_def)

lemma step_ok_pending:
  assumes fresh: "fresh_ids w"
    and w': "tasks w' = AList.update (next_uuid w) t (tasks w)"
      "next_uuid w' = Suc (next_uuid w)"
      "trace w' = trace w @ pre @ StoreActiveTask t # rest"
    and t: "task_id t = next_uuid w" "status t = Pending"
    and quiet: "filter is_task_write pre = []" "filter is_task_write rest = []"
  shows "step_ok w w' (pre @ StoreActiveTask t # rest)"
  using assms statuses_fresh [OF fresh] fresh_ids_put [OF fresh w'(1,2)]
    no_task_write [OF quiet(1), of "statuses w"]
    no_task_write [OF quiet(2), of "AList.update (next_uuid w) Pending (statuses w)"]
  by (simp add: step_ok_def statuses_put [OF w'(1)] writes_forward_append replay_append)

lemma step_ok_assigned:
  assumes fresh: "fresh_ids w"
    and w': "tasks w' = AList.update (next_uuid w) t' (tasks w)"
      "next_uuid w' = Suc (next_uuid w)"
      "trace w' = trace w @ pre @ StoreActiveTask t # mid @ StoreActiveTask t' # rest"
    and t: "task_id t = next_uuid w" "status t = Pending"
      "task_id t' = next_uuid w" "status t' = Assigned"
    and quiet: "filter is_task_write pre = []" "filter is_task_write mid = []"
      "filter is_task_write rest = []"
  shows "step_ok w w' (pre @ StoreActiveTask t # mid @ StoreActiveTask t' # rest)"
  using assms statuses_fresh [OF fresh] fresh_ids_put [OF fresh w'(1,2)]
    no_task_write [OF quiet(1), of "statuses w"]
    no_task_write [OF quiet(2), of "AList.update (next_uuid w) Pending (statuses w)"]
    no_task_write [OF quiet(3), of "AList.update (next_uuid w) Assigned (statuses w)"]
  by (simp add: step_ok_def statuses_put [OF w'(1)] writes_forward_append replay_append
      update_conv' advance_def)

lemma orchestrator_step:
  assumes fresh: "fresh_ids w"
    and run: "handleEmailReceived_with opt env event w = (res, w')"
  shows "\<exists>new. step_ok w w' new"
  using run
proof (cases rule: her_outcomes)
  case no_data
  with fresh have "step_ok w w' []" by (intro step_ok_no_write) simp_all
  then show ?thesis ..
next
  case (no_request d)
  with fresh have "step_ok w w' []" by (intro step_ok_no_write) simp_all
  then show ?thesis ..
next
  case (no_email d tr)
  with fresh have "step_ok w w' [BuildMemoryContext]"
    by (intro step_ok_no_write) (simp_all add: world_after is_task_write_def)
  then show ?thesis ..
next
  case (optimizer_failed d tr em err)
  let ?t = "newTask (next_uuid w) tr em (now w)"
  from optimizer_failed(6)
  have "step_ok w w' ([BuildMemoryContext] @ StoreActiveTask ?t
          # [GetTeamData, ConsultOptimizer])"
    by (intro step_ok_pending [OF fresh]) (simp_all add: world_after is_task_write_def)
  then show ?thesis ..
next
  case (generation_failed d tr em a err)
  let ?t = "newTask (next_uuid w) tr em (now w)"
  from generation_failed(7)
  have "step_ok w w' ([BuildMemoryContext] @ StoreActiveTask ?t
          # [GetTeamData, ConsultOptimizer, TextGeneration])"
    by (intro step_ok_pending [OF fresh]) (simp_all add: world_after is_task_write_def)
  then show ?thesis ..
next
  case (answer_missing d tr em ad)
  let ?t = "newTask (next_uuid w) tr em (now w)"
  from answer_missing(7)
  have "step_ok w w' ([BuildMemoryContext] @ StoreActiveTask ?t
          # [GetTeamData, ConsultOptimizer, TextGeneration]
          @ StoreActiveTask (assignedTask ?t ad (now w)) # [])"
    by (intro step_ok_assigned [OF fresh]) (simp_all add: world_after is_task_write_def)
  then show ?thesis ..
next
  case (not_notified d tr em r ad)
  let ?t = "newTask (next_uuid w) tr em (now w)"
  from not_notified(8)
  have "step_ok w w' ([BuildMemoryContext] @ StoreActiveTask ?t
          # [GetTeamData, ConsultOptimizer, TextGeneration]
          @ StoreActiveTask (assignedTask ?t ad (now w))
          # [StoreDecision (recordedDecision (next_uuid w) r ad (now w))])"
    by (intro step_ok_assigned [OF fresh]) (simp_all add: world_after is_task_write_def)
  then show ?thesis ..
next
  case (queue_failed d tr em r ad mail)
  let ?t = "newTask (next_uuid w) tr em (now w)"
  from queue_failed(10)
  have "step_ok w w' ([BuildMemoryContext] @ StoreActiveTask ?t
          # [GetTeamData, ConsultOptimizer, TextGeneration]
          @ StoreActiveTask (assignedTask ?t ad (now w))
          # [StoreDecision (recordedDecision (next_uuid w) r ad (now w)),
             InvokeEmailSender (assignmentEvent (next_uuid w) mail em ad)])"
    by (intro step_ok_assigned [OF fresh]) (simp_all add: world_after is_task_write_def)
  then show ?thesis ..
next
  case (notified d tr em r ad mail)
  let ?t = "newTask (next_uuid w) tr em (now w)"
  from notified(10)
  have "step_ok w w' ([BuildMemoryContext] @ StoreActiveTask ?t
          # [GetTeamData, ConsultOptimizer, TextGeneration]
          @ StoreActiveTask (assignedTask ?t ad (now w))
          # [StoreDecision (recordedDecision (next_uuid w) r ad (now w)),
             InvokeEmailSender (assignmentEvent (next_uuid w) mail em ad)])"
    by (intro step_ok_assigned [OF fresh]) (simp_all add: world_after is_task_write_def)
  then show ?thesis ..
qed

lemma quiet_refl [simp]: "quiet w w"
  by (simp add: quiet_def new_effects_def)

lemma new_effects_append:
  "trace w' = trace w @ xs \<Longrightarrow> new_effects w w' = xs"
  by (simp add: new_effects_def)

lemma quiet_trans:
  assumes "quiet w w'" "quiet w' w''"
  shows "quiet w w''"
proof -
  from assms have "trace w'' = trace w @ (new_effects w w' @ new_effects w' w'')"
    by (simp add: quiet_def)
  from new_effects_append [OF this] this assms show ?thesis
    by (simp add: quiet_def)
qed

lemma quiet_step_ok:
  assumes "fresh_ids w" "quiet w w'"
  shows "step_ok w w' (new_effects w w')"
  using assms by (intro step_ok_no_write) (simp_all add: quiet_def)

lemma sender_quiet: "quiet w (snd (email_sender_handler env event w))"
  by (simp add: quiet_def new_effects_def sender_defs is_task_write_def)

lemma invokeOrchestrator_quiet: "quiet w (snd (invokeOrchestrator env event w))"
  by (simp add: quiet_def new_effects_def invokeOrchestrator_def Let_def emit_def
      is_task_write_def)

lemma storeMessage_quiet: "quiet w (storeMessage m w)"
  by (simp add: quiet_def new_effects_def storeMessage_def emit_def is_task_write_def)

lemma processEmailRecord_quiet: "quiet w (snd (processEmailRecord env r w))"
proof (cases "parseEmailEvent env r")
  case (Inl err)
  then show ?thesis by (simp add: processEmailRecord_def)
next
  case (Inr ed)
  then show ?thesis
    by (simp add: processEmailRecord_def Let_def)
      (rule quiet_trans [OF storeMessage_quiet invokeOrchestrator_quiet])
qed

lemma processRecords_quiet: "quiet w (snd (processRecords env rs w))"
proof (induction rs arbitrary: w)
  case Nil
  show ?case by simp
next
  case (Cons r rs)
  obtain res v where one: "processEmailRecord env r w = (res, v)"
    by (cases "processEmailRecord env r w")
  with processEmailRecord_quiet [of w env r] have q: "quiet w v" by simp
  show ?case
  proof (cases res)
    case (Inl err)
    with one q show ?thesis by simp
  next
    case (Inr u)
    with one have "snd (processRecords env (r # rs) w) = snd (processRecords env rs v)"
      by simp
    with quiet_trans [OF q Cons.IH [of v]] show ?thesis by simp
  qed
qed

lemma receiver_quiet: "quiet w (snd (email_receiver_handler env records w))"
  using processRecords_quiet [of w env records]
  by (auto simp add: email_receiver_handler_def split: prod.splits sum.splits)

lemma step_forward:
  assumes fresh: "fresh_ids w"
  shows "\<exists>new. step_ok w (step env w call) new"
proof (cases call)
  case (Receive records)
  with quiet_step_ok [OF fresh receiver_quiet] show ?thesis by auto
next
  case (Send event)
  with quiet_step_ok [OF fresh sender_quiet] show ?thesis by auto
next
  case (Orchestrate event)
  let ?opt = "\<lambda>n::nat. getSchedulerRecommendation"
  show ?thesis
  proof (cases "ev_type event = ''email_received''")
    case False
    have "quiet w (step env w call)"
    proof (cases "ev_type event = ''health_check''")
      case True
      with handler_health_check [of event ?opt env w] Orchestrate
      have "step env w call = emit GetMemoryStats w" by (simp add: orchestrator_handler_def)
      then show ?thesis by (simp add: quiet_def new_effects_def emit_def is_task_write_def)
    next
      case False
      with \<open>ev_type event \<noteq> ''email_received''\<close> handler_other_types [of event ?opt env w]
        Orchestrate
      have "step env w call = w" by (simp add: orchestrator_handler_def)
      then show ?thesis by simp
    qed
    from quiet_step_ok [OF fresh this] show ?thesis by auto
  next
    case True
    obtain res v where her: "handleEmailReceived_with ?opt env event w = (res, v)"
      by (cases "handleEmailReceived_with ?opt env event w")
    with True Orchestrate have "step env w call = v"
      by (simp add: orchestrator_handler_def handler_email_received split: sum.splits)
    with orchestrator_step [OF fresh her] show ?thesis by simp
  qed
qed

lemma run_forward:
  "fresh_ids w \<Longrightarrow> \<exists>new. step_ok w (run env calls w) new"
proof (induction calls arbitrary: w)
  case Nil
  with quiet_step_ok [of w w] show ?case by (auto simp add: run_def)
next
  case (Cons call calls)
  from step_forward [OF Cons.prems] obtain new1 where
    one: "step_ok w (step env w call) new1" by blast
  then have "fresh_ids (step env w call)" by (simp add: step_ok_def)
  from Cons.IH [OF this] obtain new2 where
    two: "step_ok (step env w call) (run env calls (step env w call)) new2" by blast
  have "run env (call # calls) w = run env calls (step env w call)" by (simp add: run_def)
  with one two have "step_ok w (run env (call # calls) w) (new1 @ new2)"
    by (simp add: step_ok_def writes_forward_append replay_append)
  then show ?case ..
qed

text \<open>
  The hypothesis of the theorem holds of the empty store and after every invocation.
\<close>

lemma fresh_ids_empty: "fresh_ids empty_world"
  by (simp add: fresh_ids_def empty_world_def)

lemma fresh_ids_run: "fresh_ids w \<Longrightarrow> fresh_ids (run env calls w)"
  using run_forward [of w env calls] by (auto simp add: step_ok_def)

text \<open>
  C7. Over any sequence of invocations of the three Lambda functions, whatever the services
  answer, every write of a Task either creates the Task as pending, or leaves the status of
  the existing Task as it is or moves it along one arrow of the lifecycle pending to
  assigned to completed or cancelled; and the status each Task of the store has afterwards
  is the one it had or a later one. No write moves a status backward. (\<open>fresh_ids\<close>: the
  ids of the store were generated earlier, so that \<open>uuidv4\<close> does not repeat one.)
\<close>

theorem status_only_forward:
  assumes fresh: "fresh_ids w"
  shows "writes_forward (statuses w) (new_effects w (run env calls w))
       \<and> (\<forall>i s. map_of (statuses w) i = Some s \<longrightarrow>
             (\<exists>s'. map_of (statuses (run env calls w)) i = Some s' \<and> forward s s'))"
proof -
  from run_forward [OF fresh] obtain new where ok: "step_ok w (run env calls w) new" by blast
  then have new: "new_effects w (run env calls w) = new"
    by (simp add: step_ok_def new_effects_append)
  from ok have wf: "writes_forward (statuses w) new"
    and re: "replay (statuses w) new = statuses (run env calls w)"
    by (simp_all add: step_ok_def)
  from writes_forward_status [OF wf] re new wf show ?thesis by simp
qed


lemmas system_defs = run_def orchestrator_handler_def orchestrator_handler_with_def
  sender_defs her_defs getTeamDataFromSheets_def getSchedulerRecommendation_def
  findTeamMemberEmail_def newTask_def buildMemoryContext_def decisionConfidence_def
  email_receiver_handler_def processEmailRecord_def invokeOrchestrator_def
  first_recipient_def parse_record_def subject_request_def

text \<open>
  A store with a completed Task, then an email received, the event orchestrated, the email
  sent, and the event orchestrated again: the completed Task stays completed and the two new
  Tasks go from pending to assigned.
\<close>

theorem status_only_forward_witness:
  "fresh_ids busy_world
   \<and> statuses busy_world = [(0, Completed)]
   \<and> statuses (run env_alex [Receive [sample_record], Orchestrate sample_event,
         Send sample_send, Orchestrate sample_event] busy_world)
       = [(0, Completed), (1, Assigned), (3, Assigned)]
   \<and> writes_forward (statuses busy_world)
        (new_effects busy_world (run env_alex [Receive [sample_record],
           Orchestrate sample_event, Send sample_send, Orchestrate sample_event] busy_world))"
proof -
  have fresh: "fresh_ids busy_world"
    by (simp add: fresh_ids_def busy_world_def empty_world_def)
  have "statuses (run env_alex [Receive [sample_record], Orchestrate sample_event,
         Send sample_send, Orchestrate sample_event] busy_world)
       = [(0, Completed), (1, Assigned), (3, Assigned)]"
    by (simp add: system_defs sample_defs busy_world_def done_task_def statuses_def
        sample_send_def assignmentEvent_def sample_record_def)
  with status_only_forward [OF fresh, of env_alex
      "[Receive [sample_record], Orchestrate sample_event, Send sample_send,
        Orchestrate sample_event]"] fresh
  show ?thesis by (simp add: statuses_def busy_world_def done_task_def)
qed

end
